theory Spec2Isabelle
  imports Main
begin

section \<open>Data model\<close>

text \<open>
  The program is \<^verbatim>\<open>AppController\<close> of \<^verbatim>\<open>src/app/core/controller.py\<close> together with the
  dataclass \<^verbatim>\<open>DownloadableQueue\<close> of \<^verbatim>\<open>src/app/data/model.py\<close>.  Python objects become
  records holding the attributes the controller reads or writes; every raise becomes the
  \<open>Inl\<close> branch of a sum; mutation of the store, of the log and of a candidate becomes
  explicit state passing.  Calls of \<^verbatim>\<open>print\<close> write to standard output only and are left out.
\<close>

text \<open>
  A raised error is an instance of Python's \<^verbatim>\<open>Exception\<close> (\<^verbatim>\<open>IOError\<close>, \<^verbatim>\<open>AttributeError\<close>,
  ...) or of \<^verbatim>\<open>BaseException\<close> only (\<^verbatim>\<open>SystemExit\<close>, \<^verbatim>\<open>KeyboardInterrupt\<close>).  The
  handlers of the controller are all \<^verbatim>\<open>except Exception\<close>: they catch the first kind and
  let the second through.
\<close>

datatype error = Exception string | BaseExceptionOnly string

fun is_Exception :: "error \<Rightarrow> bool" where
  "is_Exception (Exception _) = True"
| "is_Exception (BaseExceptionOnly _) = False"

text \<open>\<^verbatim>\<open>MediaEntry\<close>: \<^verbatim>\<open>entry.media.title.userPreferred\<close>, \<^verbatim>\<open>entry.media.status\<close>,
  \<^verbatim>\<open>entry.status\<close>.\<close>

record media_entry =
  title_userPreferred :: string
  media_status :: string
  status :: string

text \<open>\<^verbatim>\<open>plexapi.video.Show\<close>, identified by its title.\<close>

datatype plex_show = Show string

text \<open>\<^verbatim>\<open>TorrentInfo\<close> with its optional \<^verbatim>\<open>anime_info\<close>.\<close>

record anime_info_t =
  anime_title :: string

record torrent_info =
  name :: string
  download_url :: string
  anime_info :: "anime_info_t option"
  is_queued :: bool

text \<open>\<^verbatim>\<open>AppConfig\<close>: the two options and the path builder that the controller uses.\<close>

record app_config =
  torrent_monitor_directory :: string
  torrent_keep_file_after_queuing :: bool
  build_parent_save_path :: "string \<Rightarrow> string"

text \<open>\<^verbatim>\<open>DownloadableQueue\<close> (model.py, lines 8-12).\<close>

record downloadable_queue =
  shows_found_in_plex :: "plex_show list"
  shows_missing_in_plex :: "media_entry list"
  show_media_entry_in_plex :: "media_entry list"

text \<open>
  \<^verbatim>\<open>contains_items\<close> returns \<^verbatim>\<open>a or b or c\<close>: Python's \<^verbatim>\<open>or\<close> yields its first truthy
  operand, or the last operand when none is truthy, so the value is one of the three lists
  and not a boolean.  The caller tests its truthiness.
\<close>

datatype py_list = ShowList "plex_show list" | EntryList "media_entry list"

fun truthy :: "py_list \<Rightarrow> bool" where
  "truthy (ShowList xs) = (xs \<noteq> [])"
| "truthy (EntryList xs) = (xs \<noteq> [])"

definition py_or :: "py_list \<Rightarrow> py_list \<Rightarrow> py_list" where
  "py_or a b = (if truthy a then a else b)"

definition contains_items :: "downloadable_queue \<Rightarrow> py_list" where
  "contains_items q =
     py_or (py_or (ShowList (shows_found_in_plex q)) (EntryList (shows_missing_in_plex q)))
           (EntryList (show_media_entry_in_plex q))"

section \<open>The world: persistent store and the trace of outside calls\<close>

text \<open>
  The messages handed to \<^verbatim>\<open>EventLogHelper\<close>, one constructor for each f-string of the
  controller, carrying the values the string interpolates.
\<close>

datatype log_msg =
    FetchedShows nat nat
  | SearchingMissing
  | UnableToFind string
  | SearchingMatching
  | NoNewReleases media_entry
  | DownloadingTorrent string
  | DownloadSuccessful "anime_info_t option"
  | FailedToDownload "anime_info_t option"
  | MoveError error
  | SkippingWithoutAnimeInfo torrent_info
  | SkippingExisting "anime_info_t option"
  | NoNewEpisodes
  | UncaughtException error

text \<open>
  Every call that leaves the controller is recorded, in order, with the arguments it is
  made with.
\<close>

datatype event =
    MakeRequest
  | AniListSearch "string option"
  | FindAllByTitle media_entry
  | SearchForMissingShows media_entry
  | SearchForShows plex_show media_entry
  | StoreSearch string
  | StoreSaveOrUpdate torrent_info
  | AddTorrentMagnet string
  | DownloadTorrentFile torrent_info
  | CopyOrMoveFile string string string bool
  | LogInfo log_msg
  | LogError log_msg

record world =
  app_store :: "torrent_info list"
  events :: "event list"

definition emit :: "event \<Rightarrow> world \<Rightarrow> world" where
  "emit ev w = w\<lparr>events := events w @ [ev]\<rparr>"

definition log_info :: "log_msg \<Rightarrow> world \<Rightarrow> world" where
  "log_info m w = emit (LogInfo m) w"

definition log_error :: "log_msg \<Rightarrow> world \<Rightarrow> world" where
  "log_error m w = emit (LogError m) w"

text \<open>
  The collaborators whose code is outside \<^verbatim>\<open>src/\<close> are parameters: each is a function from
  the arguments of the call to its outcome, a raise (\<open>Inl\<close>) or a return value (\<open>Inr\<close>).
  \<^verbatim>\<open>find_all_by_title\<close> receives a callback that appends the entry to the missing list
  (controller.py, lines 69-72); its outcome therefore also says how many times it invoked
  that callback.
\<close>

record plex_result =
  shows_returned :: "plex_show list"
  add_missing_calls :: nat

record collaborators =
  make_request :: "error + unit"
  anilist_search :: "string option \<Rightarrow> error + media_entry list"
  find_all_by_title :: "media_entry \<Rightarrow> error + plex_result"
  search_for_missing_shows :: "media_entry \<Rightarrow> app_config \<Rightarrow> error + torrent_info list"
  search_for_shows :: "plex_show \<Rightarrow> media_entry \<Rightarrow> app_config \<Rightarrow> error + torrent_info list"
  add_torrent_magnet :: "string \<Rightarrow> error + bool"
  download_torrent_file :: "torrent_info \<Rightarrow> app_config \<Rightarrow> error + bool"
  copy_or_move_file :: "string \<Rightarrow> string \<Rightarrow> string \<Rightarrow> bool \<Rightarrow> error + unit"

section \<open>\<^verbatim>\<open>find_plex_show\<close> (controller.py, lines 55-87)\<close>

text \<open>
  The loop of lines 64-76 over the entries; the three local lists are carried in a
  \<open>downloadable_queue\<close>.  A raise of \<^verbatim>\<open>find_all_by_title\<close> leaves the loop.
\<close>

fun find_plex_show_loop ::
  "collaborators \<Rightarrow> media_entry list \<Rightarrow> downloadable_queue \<Rightarrow> world
     \<Rightarrow> (error + downloadable_queue) \<times> world" where
  "find_plex_show_loop env [] q w = (Inr q, w)"
| "find_plex_show_loop env (entry # rest) q w =
     (if media_status entry \<noteq> ''NOT_YET_RELEASED'' then
        if status entry \<noteq> ''COMPLETED'' then
          (case find_all_by_title env entry of
             Inl e \<Rightarrow> (Inl e, emit (FindAllByTitle entry) w)
           | Inr r \<Rightarrow>
               let q1 = q\<lparr>shows_missing_in_plex :=
                           shows_missing_in_plex q @ replicate (add_missing_calls r) entry\<rparr>;
                   show = shows_returned r;
                   q2 = (if show \<noteq> [] then
                           q1\<lparr>shows_found_in_plex := shows_found_in_plex q1 @ show,
                              show_media_entry_in_plex := show_media_entry_in_plex q1 @ [entry]\<rparr>
                         else q1)
               in find_plex_show_loop env rest q2 (emit (FindAllByTitle entry) w))
        else find_plex_show_loop env rest q w
      else find_plex_show_loop env rest q w)"

definition empty_queue :: downloadable_queue where
  "empty_queue =
     \<lparr>shows_found_in_plex = [], shows_missing_in_plex = [], show_media_entry_in_plex = []\<rparr>"

definition find_plex_show ::
  "collaborators \<Rightarrow> media_entry list \<Rightarrow> world \<Rightarrow> (error + downloadable_queue) \<times> world" where
  "find_plex_show env media_entries w =
     (case find_plex_show_loop env media_entries empty_queue w of
        (Inl e, w1) \<Rightarrow> (Inl e, w1)
      | (Inr q, w1) \<Rightarrow>
          (Inr q,
           log_info (FetchedShows (length (shows_found_in_plex q))
                                  (length (shows_missing_in_plex q))) w1))"

section \<open>\<^verbatim>\<open>search_nyaa_for_shows\<close> (controller.py, lines 89-143)\<close>

text \<open>The loop of lines 106-115 over the entries missing in plex.\<close>

fun search_missing_loop ::
  "collaborators \<Rightarrow> app_config \<Rightarrow> media_entry list \<Rightarrow> torrent_info list \<Rightarrow> world
     \<Rightarrow> (error + torrent_info list) \<times> world" where
  "search_missing_loop env cfg [] acc w = (Inr acc, w)"
| "search_missing_loop env cfg (media # rest) acc w =
     (case search_for_missing_shows env media cfg of
        Inl e \<Rightarrow> (Inl e, emit (SearchForMissingShows media) w)
      | Inr torrent_search_results \<Rightarrow>
          if length torrent_search_results > 0 then
            search_missing_loop env cfg rest (acc @ torrent_search_results)
              (emit (SearchForMissingShows media) w)
          else
            search_missing_loop env cfg rest acc
              (log_info (UnableToFind (title_userPreferred media))
                 (emit (SearchForMissingShows media) w)))"

text \<open>The loop of lines 126-140 over the zipped found shows and their entries.\<close>

fun search_found_loop ::
  "collaborators \<Rightarrow> app_config \<Rightarrow> (plex_show \<times> media_entry) list \<Rightarrow> torrent_info list
     \<Rightarrow> world \<Rightarrow> (error + torrent_info list) \<times> world" where
  "search_found_loop env cfg [] acc w = (Inr acc, w)"
| "search_found_loop env cfg ((show, media) # rest) acc w =
     (case search_for_shows env show media cfg of
        Inl e \<Rightarrow> (Inl e, emit (SearchForShows show media) w)
      | Inr torrent_search_results \<Rightarrow>
          if length torrent_search_results > 0 then
            search_found_loop env cfg rest (acc @ torrent_search_results)
              (emit (SearchForShows show media) w)
          else
            search_found_loop env cfg rest acc
              (log_info (NoNewReleases media) (emit (SearchForShows show media) w)))"

definition search_nyaa_for_shows ::
  "collaborators \<Rightarrow> app_config \<Rightarrow> downloadable_queue \<Rightarrow> world
     \<Rightarrow> (error + torrent_info list) \<times> world" where
  "search_nyaa_for_shows env cfg download_queue w =
     (case search_missing_loop env cfg (shows_missing_in_plex download_queue) []
             (log_info SearchingMissing w) of
        (Inl e, w1) \<Rightarrow> (Inl e, w1)
      | (Inr torrent_search_result_list_for_missing_shows, w1) \<Rightarrow>
          (case search_found_loop env cfg
                  (zip (shows_found_in_plex download_queue)
                       (show_media_entry_in_plex download_queue)) []
                  (log_info SearchingMatching w1) of
             (Inl e, w2) \<Rightarrow> (Inl e, w2)
           | (Inr torrent_search_result_list, w2) \<Rightarrow>
               (Inr (torrent_search_result_list
                       @ torrent_search_result_list_for_missing_shows), w2)))"

section \<open>The persistent store\<close>

text \<open>
  Modelled from the spec: \<^verbatim>\<open>AppStore\<close> (package \<^verbatim>\<open>app.data\<close>) is not among the sources.
  The spec describes it as a record store keyed by candidate name: \<open>find\<close> takes a name and
  returns the sequence of records with that name, possibly empty.
\<close>

definition store_search :: "torrent_info list \<Rightarrow> string \<Rightarrow> torrent_info list" where
  "store_search st n = filter (\<lambda>r. name r = n) st"

text \<open>
  Modelled from the spec: \<^verbatim>\<open>AppStore.save_or_update\<close> is the spec's \<open>upsert\<close>, an idempotent
  write keyed by name: the records of that name are replaced by the new one, and the record
  is added when there is none.
\<close>

definition store_save_or_update :: "torrent_info \<Rightarrow> torrent_info list \<Rightarrow> torrent_info list" where
  "store_save_or_update r st =
     (if store_search st (name r) = [] then st @ [r]
      else map (\<lambda>x. if name x = name r then r else x) st)"

text \<open>
  Modelled from the spec: \<^verbatim>\<open>NyaaModelHelper.create_dictionary_class\<close> is not among the
  sources.  The persisted record is opaque beyond being keyed by the candidate's name; it
  is taken to be the snapshot of the candidate's attributes at the time of the call.
\<close>

definition create_dictionary_class :: "torrent_info \<Rightarrow> torrent_info" where
  "create_dictionary_class torrent_info = torrent_info"

definition app_store_search :: "string \<Rightarrow> world \<Rightarrow> torrent_info list \<times> world" where
  "app_store_search n w = (store_search (app_store w) n, emit (StoreSearch n) w)"

definition app_store_save_or_update :: "torrent_info \<Rightarrow> world \<Rightarrow> world" where
  "app_store_save_or_update r w =
     emit (StoreSaveOrUpdate r) (w\<lparr>app_store := store_save_or_update r (app_store w)\<rparr>)"

section \<open>The decision phase (controller.py, lines 145-203 and 221-241)\<close>

definition find_downloadable_torrents :: "torrent_info \<Rightarrow> world \<Rightarrow> torrent_info list \<times> world" where
  "find_downloadable_torrents torrent_info w = app_store_search (name torrent_info) w"

text \<open>
  \<^verbatim>\<open>__move_torrent_to_monitored_directory\<close> (lines 168-186): the whole body is inside
  \<^verbatim>\<open>try\<close>, so the \<^verbatim>\<open>AttributeError\<close> of the attribute access on a missing \<^verbatim>\<open>anime_info\<close>
  and an \<^verbatim>\<open>Exception\<close> raised by \<^verbatim>\<open>copy_or_move_file\<close> both end in the handler of line
  181, which logs the error; any other raise of \<^verbatim>\<open>copy_or_move_file\<close> leaves the method.
\<close>

definition move_torrent_to_monitored_directory ::
  "collaborators \<Rightarrow> app_config \<Rightarrow> torrent_info \<Rightarrow> world \<Rightarrow> (error + unit) \<times> world" where
  "move_torrent_to_monitored_directory env cfg torrent_info w =
     (case anime_info torrent_info of
        None \<Rightarrow> (Inr (), log_error (MoveError (Exception ''AttributeError'')) w)
      | Some info \<Rightarrow>
          let filename = name torrent_info @ ''.torrent'';
              directory_path = build_parent_save_path cfg (anime_title info);
              destination_path = torrent_monitor_directory cfg;
              keep_file = torrent_keep_file_after_queuing cfg;
              w1 = emit (CopyOrMoveFile filename directory_path destination_path keep_file) w
          in (case copy_or_move_file env filename directory_path destination_path keep_file of
                Inl e \<Rightarrow>
                  if is_Exception e then (Inr (), log_error (MoveError e) w1)
                  else (Inl e, w1)
              | Inr _ \<Rightarrow>
                  (Inr (),
                   app_store_save_or_update (create_dictionary_class torrent_info) w1)))"

text \<open>\<^verbatim>\<open>__download_torrent_file\<close> (lines 148-166).\<close>

definition download_torrent_file_step ::
  "collaborators \<Rightarrow> app_config \<Rightarrow> torrent_info \<Rightarrow> world \<Rightarrow> (error + unit) \<times> world" where
  "download_torrent_file_step env cfg torrent_info w =
     (let w1 = emit (DownloadTorrentFile torrent_info)
                 (log_info (DownloadingTorrent (name torrent_info)) w)
      in case download_torrent_file env torrent_info cfg of
           Inl e \<Rightarrow> (Inl e, w1)
         | Inr is_download_successful \<Rightarrow>
             if is_download_successful then
               move_torrent_to_monitored_directory env cfg torrent_info
                 (log_info (DownloadSuccessful (anime_info torrent_info))
                    (app_store_save_or_update (create_dictionary_class torrent_info) w1))
             else
               (Inr (), log_info (FailedToDownload (anime_info torrent_info)) w1))"

text \<open>
  \<^verbatim>\<open>__queue_downloaded_torrent_file\<close> (lines 188-203).  The candidate object is mutated, so
  the updated candidate is returned beside the boolean.
\<close>

definition queue_downloaded_torrent_file ::
  "collaborators \<Rightarrow> torrent_info \<Rightarrow> world \<Rightarrow> (error + bool \<times> torrent_info) \<times> world" where
  "queue_downloaded_torrent_file env torrent_info w =
     (let w1 = emit (AddTorrentMagnet (download_url torrent_info)) w
      in case add_torrent_magnet env (download_url torrent_info) of
           Inl e \<Rightarrow> (Inl e, w1)
         | Inr success \<Rightarrow>
             let torrent_info1 = torrent_info\<lparr>is_queued := success\<rparr>
             in if success then
                  (Inr (success, torrent_info1),
                   app_store_save_or_update (create_dictionary_class torrent_info1) w1)
                else (Inr (success, torrent_info1), w1))"

text \<open>
  The body of the loop of \<^verbatim>\<open>start_application\<close> (lines 222-241) for one candidate; it
  returns the candidate as the body leaves it.
\<close>

definition process_torrent ::
  "collaborators \<Rightarrow> app_config \<Rightarrow> torrent_info \<Rightarrow> world \<Rightarrow> (error + torrent_info) \<times> world" where
  "process_torrent env cfg torrent_info w =
     (if anime_info torrent_info = None then
        (Inr torrent_info, log_info (SkippingWithoutAnimeInfo torrent_info) w)
      else
        case find_downloadable_torrents torrent_info w of
          (downloaded_torrent, w1) \<Rightarrow>
            if length downloaded_torrent < 1 then
              (case queue_downloaded_torrent_file env torrent_info w1 of
                 (Inl e, w2) \<Rightarrow> (Inl e, w2)
               | (Inr (queued, torrent_info1), w2) \<Rightarrow>
                   if \<not> queued then
                     (case download_torrent_file_step env cfg torrent_info1 w2 of
                        (Inl e, w3) \<Rightarrow> (Inl e, w3)
                      | (Inr _, w3) \<Rightarrow> (Inr torrent_info1, w3))
                   else (Inr torrent_info1, w2))
            else
              (Inr torrent_info,
               log_info (SkippingExisting (anime_info torrent_info)) w1))"

text \<open>The loop of line 221: a raise in the body leaves the loop.\<close>

fun process_search_results ::
  "collaborators \<Rightarrow> app_config \<Rightarrow> torrent_info list \<Rightarrow> world
     \<Rightarrow> (error + torrent_info list) \<times> world" where
  "process_search_results env cfg [] w = (Inr [], w)"
| "process_search_results env cfg (torrent_info # rest) w =
     (case process_torrent env cfg torrent_info w of
        (Inl e, w1) \<Rightarrow> (Inl e, w1)
      | (Inr torrent_info1, w1) \<Rightarrow>
          (case process_search_results env cfg rest w1 of
             (Inl e, w2) \<Rightarrow> (Inl e, w2)
           | (Inr rest1, w2) \<Rightarrow> (Inr (torrent_info1 # rest1), w2)))"

section \<open>\<^verbatim>\<open>fetch_anime_list\<close> and \<^verbatim>\<open>start_application\<close> (lines 40-49 and 205-253)\<close>

record app_controller =
  list_name :: "string option"
  app_config :: app_config

definition fetch_anime_list ::
  "collaborators \<Rightarrow> app_controller \<Rightarrow> world \<Rightarrow> (error + media_entry list) \<times> world" where
  "fetch_anime_list env self w =
     (let search = (\<lambda>w0. (case anilist_search env (list_name self) of
                             Inl e \<Rightarrow> Inl e
                           | Inr media_list_entries \<Rightarrow> Inr media_list_entries,
                           emit (AniListSearch (list_name self)) w0))
      in if list_name self \<noteq> None then
           (case make_request env of
              Inl e \<Rightarrow> (Inl e, emit MakeRequest w)
            | Inr _ \<Rightarrow> search (emit MakeRequest w))
         else search w)"

text \<open>The body of the \<^verbatim>\<open>try\<close> block, lines 211-249.\<close>

definition start_application_body ::
  "collaborators \<Rightarrow> app_controller \<Rightarrow> world \<Rightarrow> (error + unit) \<times> world" where
  "start_application_body env self w =
     (case fetch_anime_list env self w of
        (Inl e, w1) \<Rightarrow> (Inl e, w1)
      | (Inr anime_list, w1) \<Rightarrow>
          if anime_list \<noteq> [] then
            (case find_plex_show env anime_list w1 of
               (Inl e, w2) \<Rightarrow> (Inl e, w2)
             | (Inr download_queue, w2) \<Rightarrow>
                 if truthy (contains_items download_queue) then
                   (case search_nyaa_for_shows env (app_config self) download_queue w2 of
                      (Inl e, w3) \<Rightarrow> (Inl e, w3)
                    | (Inr search_results, w3) \<Rightarrow>
                        if length search_results > 0 then
                          (case process_search_results env (app_config self)
                                  search_results w3 of
                             (Inl e, w4) \<Rightarrow> (Inl e, w4)
                           | (Inr _, w4) \<Rightarrow> (Inr (), w4))
                        else (Inr (), log_info NoNewEpisodes w3))
                 else (Inr (), w2))
          else (Inr (), w1))"

text \<open>
  The \<^verbatim>\<open>try\<close> / \<^verbatim>\<open>except Exception\<close> of lines 210 and 250-253: an \<^verbatim>\<open>Exception\<close> that
  leaves the body is logged and the method returns; any other raise leaves the method.
\<close>

definition start_application ::
  "collaborators \<Rightarrow> app_controller \<Rightarrow> world \<Rightarrow> (error + unit) \<times> world" where
  "start_application env self w =
     (case start_application_body env self w of
        (Inl e, w1) \<Rightarrow>
          if is_Exception e then (Inr (), log_error (UncaughtException e) w1)
          else (Inl e, w1)
      | (Inr u, w1) \<Rightarrow> (Inr u, w1))"

section \<open>Example inputs\<close>

definition entry_current :: media_entry where
  "entry_current =
     \<lparr>title_userPreferred = ''Show B'', media_status = ''RELEASING'', status = ''CURRENT''\<rparr>"

definition entry_completed :: media_entry where
  "entry_completed =
     \<lparr>title_userPreferred = ''Show A'', media_status = ''FINISHED'', status = ''COMPLETED''\<rparr>"

definition entry_unreleased :: media_entry where
  "entry_unreleased =
     \<lparr>title_userPreferred = ''Show C'', media_status = ''NOT_YET_RELEASED'',
      status = ''PLANNING''\<rparr>"

definition world0 :: world where
  "world0 = \<lparr>app_store = [], events = []\<rparr>"

definition config0 :: app_config where
  "config0 =
     \<lparr>torrent_monitor_directory = ''/watch'', torrent_keep_file_after_queuing = False,
      build_parent_save_path = (\<lambda>title. ''/anime/'' @ title)\<rparr>"

text \<open>
  Collaborators that never raise: nothing is in the library (the missing callback is
  invoked once per query), every search is empty, the client accepts every magnet.
\<close>

definition collaborators0 :: collaborators where
  "collaborators0 =
     \<lparr>make_request = Inr (),
      anilist_search = (\<lambda>_. Inr []),
      find_all_by_title = (\<lambda>_. Inr \<lparr>shows_returned = [], add_missing_calls = 1\<rparr>),
      search_for_missing_shows = (\<lambda>_ _. Inr []),
      search_for_shows = (\<lambda>_ _ _. Inr []),
      add_torrent_magnet = (\<lambda>_. Inr True),
      download_torrent_file = (\<lambda>_ _. Inr True),
      copy_or_move_file = (\<lambda>_ _ _ _. Inr ())\<rparr>"

text \<open>A library that holds two items for every title.\<close>

definition two_shows_library :: collaborators where
  "two_shows_library =
     collaborators0\<lparr>find_all_by_title :=
       (\<lambda>_. Inr \<lparr>shows_returned = [Show ''Show B'', Show ''Show B (2019)''],
                 add_missing_calls = 0\<rparr>)\<rparr>"

definition entry_watching :: media_entry where
  "entry_watching =
     \<lparr>title_userPreferred = ''Show D'', media_status = ''RELEASING'', status = ''CURRENT''\<rparr>"

definition torrent_missing :: torrent_info where
  "torrent_missing =
     \<lparr>name = ''Show.B.E05'', download_url = ''magnet:?xt=urn:btih:b05'',
      anime_info = Some \<lparr>anime_title = ''Show B''\<rparr>, is_queued = False\<rparr>"

definition torrent_found :: torrent_info where
  "torrent_found =
     \<lparr>name = ''Show.D.E02'', download_url = ''magnet:?xt=urn:btih:d02'',
      anime_info = Some \<lparr>anime_title = ''Show D''\<rparr>, is_queued = False\<rparr>"

text \<open>A queue with one missing entry and one entry matched to one item of the library.\<close>

definition queue_both :: downloadable_queue where
  "queue_both =
     \<lparr>shows_found_in_plex = [Show ''Show D''], shows_missing_in_plex = [entry_current],
      show_media_entry_in_plex = [entry_watching]\<rparr>"

text \<open>Every search returns one candidate.\<close>

definition one_result_each :: collaborators where
  "one_result_each =
     collaborators0\<lparr>search_for_missing_shows := (\<lambda>_ _. Inr [torrent_missing]),
                    search_for_shows := (\<lambda>_ _ _. Inr [torrent_found])\<rparr>"

text \<open>The download client refuses every magnet (returns false).\<close>

definition magnet_rejected :: collaborators where
  "magnet_rejected = collaborators0\<lparr>add_torrent_magnet := (\<lambda>_. Inr False)\<rparr>"

text \<open>A candidate whose queued flag is already set.\<close>

definition torrent_flagged :: torrent_info where
  "torrent_flagged = torrent_missing\<lparr>is_queued := True\<rparr>"

text \<open>The download client refuses every magnet and the file mover raises.\<close>

definition move_raises :: collaborators where
  "move_raises =
     magnet_rejected\<lparr>copy_or_move_file := (\<lambda>_ _ _ _. Inl (Exception ''IOError''))\<rparr>"

text \<open>
  The list holds one entry, missing in the library; its search finds two candidates; the
  download client raises on every call.
\<close>

definition client_raises :: collaborators where
  "client_raises =
     collaborators0\<lparr>anilist_search := (\<lambda>_. Inr [entry_current]),
                    search_for_missing_shows := (\<lambda>_ _. Inr [torrent_missing, torrent_found]),
                    add_torrent_magnet := (\<lambda>_. Inl (Exception ''ConnectionError''))\<rparr>"

definition controller0 :: app_controller where
  "controller0 = \<lparr>list_name = Some ''CURRENT'', app_config = config0\<rparr>"

text \<open>A store that already holds a record named as the first candidate.\<close>

definition world_handled :: world where
  "world_handled = \<lparr>app_store = [torrent_flagged], events = []\<rparr>"

text \<open>The download client refuses every magnet and the direct download raises.\<close>

definition download_raises :: collaborators where
  "download_raises =
     magnet_rejected\<lparr>download_torrent_file := (\<lambda>_ _. Inl (Exception ''HTTPError''))\<rparr>"

text \<open>A third candidate, and a download client that raises on the second candidate only.\<close>

definition torrent_third :: torrent_info where
  "torrent_third =
     \<lparr>name = ''Show.D.E03'', download_url = ''magnet:?xt=urn:btih:d03'',
      anime_info = Some \<lparr>anime_title = ''Show D''\<rparr>, is_queued = False\<rparr>"

definition second_magnet_raises :: collaborators where
  "second_magnet_raises =
     collaborators0\<lparr>add_torrent_magnet :=
       (\<lambda>u. if u = ''magnet:?xt=urn:btih:d02'' then Inl (Exception ''ConnectionError'')
            else Inr True)\<rparr>"


section \<open>Auxiliary predicates on events\<close>

text \<open>
  \<open>own_event t\<close> holds of the outside calls that processing the candidate \<open>t\<close> can make.
  \<open>foreign_event X cs\<close> holds of an event that is not a mutating call (enqueue, direct
  download, file move, upsert) on behalf of a candidate named \<open>X\<close>: an enqueue carries only
  the locator, so it must be the locator of a candidate of \<open>cs\<close> with another name.
\<close>

fun own_event :: "torrent_info \<Rightarrow> event \<Rightarrow> bool" where
  "own_event t (StoreSearch n) = (n = name t)"
| "own_event t (AddTorrentMagnet u) = (u = download_url t)"
| "own_event t (DownloadTorrentFile c) = (name c = name t)"
| "own_event t (CopyOrMoveFile f d p k) = (f = name t @ ''.torrent'')"
| "own_event t (StoreSaveOrUpdate r) = (name r = name t)"
| "own_event t (LogInfo m) = True"
| "own_event t (LogError m) = True"
| "own_event t ev = False"

definition foreign_event :: "string \<Rightarrow> torrent_info list \<Rightarrow> event \<Rightarrow> bool" where
  "foreign_event X cs ev =
     ((\<forall>u. ev = AddTorrentMagnet u \<longrightarrow> (\<exists>c \<in> set cs. name c \<noteq> X \<and> download_url c = u))
      \<and> (\<forall>c. ev = DownloadTorrentFile c \<longrightarrow> name c \<noteq> X)
      \<and> (\<forall>f d p k. ev = CopyOrMoveFile f d p k \<longrightarrow> f \<noteq> X @ ''.torrent'')
      \<and> (\<forall>r. ev = StoreSaveOrUpdate r \<longrightarrow> name r \<noteq> X))"


section \<open>Properties\<close>

lemma truthy_py_or: "truthy (py_or a b) = (truthy a \<or> truthy b)"
  by (simp add: py_or_def)

lemma truthy_contains_items:
  "truthy (contains_items q) \<longleftrightarrow>
     (shows_found_in_plex q \<noteq> [] \<or> shows_missing_in_plex q \<noteq> []
        \<or> show_media_entry_in_plex q \<noteq> [])"
  by (auto simp add: contains_items_def truthy_py_or)

subsection \<open>The reconciliation loop\<close>

lemma find_plex_show_loop_events:
  "find_plex_show_loop env es q w = (r, w') \<Longrightarrow>
     app_store w' = app_store w \<and>
     (\<exists>evs. events w' = events w @ evs \<and>
        set evs \<subseteq> FindAllByTitle `
          {e \<in> set es. media_status e \<noteq> ''NOT_YET_RELEASED'' \<and> status e \<noteq> ''COMPLETED''})"
proof (induction es arbitrary: q w)
  case Nil
  then show ?case by simp
next
  case (Cons a es)
  then show ?case
    by (fastforce simp add: emit_def Let_def split: if_splits sum.splits)
qed

lemma find_plex_show_loop_queue:
  "find_plex_show_loop env es q w = (Inr q', w') \<Longrightarrow>
     shows_found_in_plex q' = shows_found_in_plex q @
        concat (map (\<lambda>e. case find_all_by_title env e of
                            Inl _ \<Rightarrow> [] | Inr r \<Rightarrow> shows_returned r)
                 (filter (\<lambda>e. media_status e \<noteq> ''NOT_YET_RELEASED'' \<and> status e \<noteq> ''COMPLETED'')
                    es))
   \<and> set (shows_missing_in_plex q') \<subseteq> set (shows_missing_in_plex q) \<union>
        {e \<in> set es. media_status e \<noteq> ''NOT_YET_RELEASED'' \<and> status e \<noteq> ''COMPLETED''}
   \<and> set (show_media_entry_in_plex q') \<subseteq> set (show_media_entry_in_plex q) \<union>
        {e \<in> set es. media_status e \<noteq> ''NOT_YET_RELEASED'' \<and> status e \<noteq> ''COMPLETED''}"
proof (induction es arbitrary: q w)
  case Nil
  then show ?case by simp
next
  case (Cons a es)
  then show ?case
    apply (simp add: Let_def split: if_splits sum.splits)
    apply fastforce+
    done
qed

text \<open>
  Claim C7.  An entry whose release status is \<^verbatim>\<open>NOT_YET_RELEASED\<close>, or whose personal status
  is \<^verbatim>\<open>COMPLETED\<close>, is never handed to \<^verbatim>\<open>find_all_by_title\<close> by \<^verbatim>\<open>find_plex_show\<close>, whether
  or not the call returns; and when a queue is returned, the entry is neither in the missing
  sequence nor in the matched sequence, and the found sequence consists of the items that
  the library returned for the other entries, in order.
\<close>

theorem find_plex_show_skips:
  assumes skip: "media_status entry = ''NOT_YET_RELEASED'' \<or> status entry = ''COMPLETED''"
  shows "FindAllByTitle entry \<notin>
           set (drop (length (events w)) (events (snd (find_plex_show env media_entries w))))
     \<and> (\<forall>q. fst (find_plex_show env media_entries w) = Inr q \<longrightarrow>
           entry \<notin> set (shows_missing_in_plex q)
         \<and> entry \<notin> set (show_media_entry_in_plex q)
         \<and> shows_found_in_plex q =
             concat (map (\<lambda>e. case find_all_by_title env e of
                                 Inl _ \<Rightarrow> [] | Inr r \<Rightarrow> shows_returned r)
                      (filter (\<lambda>e. media_status e \<noteq> ''NOT_YET_RELEASED''
                                     \<and> status e \<noteq> ''COMPLETED'') media_entries)))"
proof -
  obtain r w1 where loop: "find_plex_show_loop env media_entries empty_queue w = (r, w1)"
    by (cases "find_plex_show_loop env media_entries empty_queue w")
  from find_plex_show_loop_events [OF loop] obtain evs where
    evs: "events w1 = events w @ evs"
      "set evs \<subseteq> FindAllByTitle `
         {e \<in> set media_entries. media_status e \<noteq> ''NOT_YET_RELEASED'' \<and> status e \<noteq> ''COMPLETED''}"
    by blast
  have notin: "FindAllByTitle entry \<notin> set evs"
    using evs(2) skip by auto
  have queries: "FindAllByTitle entry \<notin>
           set (drop (length (events w)) (events (snd (find_plex_show env media_entries w))))"
    using loop evs(1) notin
    by (cases r) (simp_all add: find_plex_show_def log_info_def emit_def)
  have queue: "entry \<notin> set (shows_missing_in_plex q)
         \<and> entry \<notin> set (show_media_entry_in_plex q)
         \<and> shows_found_in_plex q =
             concat (map (\<lambda>e. case find_all_by_title env e of
                                 Inl _ \<Rightarrow> [] | Inr r \<Rightarrow> shows_returned r)
                      (filter (\<lambda>e. media_status e \<noteq> ''NOT_YET_RELEASED''
                                     \<and> status e \<noteq> ''COMPLETED'') media_entries))"
    if ret: "fst (find_plex_show env media_entries w) = Inr q" for q
  proof -
    from ret loop have "r = Inr q"
      by (cases r) (simp_all add: find_plex_show_def)
    with loop have "find_plex_show_loop env media_entries empty_queue w = (Inr q, w1)"
      by simp
    from find_plex_show_loop_queue [OF this] skip show ?thesis
      by (auto simp add: empty_queue_def)
  qed
  from queries queue show ?thesis by blast
qed

theorem find_plex_show_skips_witness:
  "status entry_completed = ''COMPLETED''
   \<and> FindAllByTitle entry_completed \<notin>
       set (drop (length (events world0))
              (events (snd (find_plex_show two_shows_library
                 [entry_completed, entry_unreleased, entry_current] world0))))
   \<and> fst (find_plex_show two_shows_library
            [entry_completed, entry_unreleased, entry_current] world0)
       = Inr \<lparr>shows_found_in_plex = [Show ''Show B'', Show ''Show B (2019)''],
              shows_missing_in_plex = [],
              show_media_entry_in_plex = [entry_current]\<rparr>"
  using find_plex_show_skips [of entry_completed world0 two_shows_library
          "[entry_completed, entry_unreleased, entry_current]"]
  by (simp add: find_plex_show_def empty_queue_def two_shows_library_def collaborators0_def
        entry_completed_def entry_unreleased_def entry_current_def world0_def
        emit_def log_info_def)

text \<open>
  The found and matched sequences do keep the same length as long as the library returns
  at most one item for each entry.
\<close>

lemma find_plex_show_loop_lengths:
  assumes "\<forall>e r. find_all_by_title env e = Inr r \<longrightarrow> length (shows_returned r) \<le> 1"
    and "find_plex_show_loop env es q w = (Inr q', w')"
    and "length (shows_found_in_plex q) = length (show_media_entry_in_plex q)"
  shows "length (shows_found_in_plex q') = length (show_media_entry_in_plex q')"
  using assms(2,3)
proof (induction es arbitrary: q w)
  case Nil
  then show ?case by simp
next
  case (Cons a es)
  show ?case
  proof (cases "media_status a \<noteq> ''NOT_YET_RELEASED'' \<and> status a \<noteq> ''COMPLETED''")
    case False
    with Cons show ?thesis by (auto split: if_splits)
  next
    case True
    with Cons.prems(1) obtain r where r: "find_all_by_title env a = Inr r"
      by (cases "find_all_by_title env a") auto
    with assms(1) have le: "length (shows_returned r) \<le> 1" by blast
    show ?thesis
    proof (cases "shows_returned r = []")
      case True
      with Cons.prems \<open>media_status a \<noteq> ''NOT_YET_RELEASED'' \<and> status a \<noteq> ''COMPLETED''\<close> r
      show ?thesis by (auto simp add: Let_def intro: Cons.IH)
    next
      case False
      with le have one: "length (shows_returned r) = 1"
        by (cases "shows_returned r") auto
      with Cons.prems \<open>media_status a \<noteq> ''NOT_YET_RELEASED'' \<and> status a \<noteq> ''COMPLETED''\<close> r False
      show ?thesis by (auto simp add: Let_def intro: Cons.IH)
    qed
  qed
qed

text \<open>
  Claim C2.  The claimed invariant, found and matched sequences of equal length, does not
  hold when the library returns more than one item for an entry: line 75 extends the found
  sequence by every item, line 76 appends the entry once.  Here the library returns two
  items for the single current entry, and the returned queue has two found items and one
  matched entry.
\<close>

theorem find_plex_show_two_items:
  "find_plex_show two_shows_library [entry_current] world0 =
     (Inr \<lparr>shows_found_in_plex = [Show ''Show B'', Show ''Show B (2019)''],
            shows_missing_in_plex = [],
            show_media_entry_in_plex = [entry_current]\<rparr>,
      \<lparr>app_store = [],
       events = [FindAllByTitle entry_current, LogInfo (FetchedShows 2 0)]\<rparr>)
   \<and> (case fst (find_plex_show two_shows_library [entry_current] world0) of
         Inl e \<Rightarrow> False
       | Inr q \<Rightarrow> length (shows_found_in_plex q) = 2
                  \<and> length (show_media_entry_in_plex q) = 1)"
  by (simp add: find_plex_show_def empty_queue_def two_shows_library_def collaborators0_def
        entry_current_def world0_def emit_def log_info_def)

subsection \<open>The search phase\<close>

lemma search_missing_loop_trace:
  "search_missing_loop env cfg ms acc w = (Inr res, w') \<Longrightarrow>
     res = acc @ concat (map (\<lambda>media. case search_for_missing_shows env media cfg of
                                        Inl _ \<Rightarrow> [] | Inr r \<Rightarrow> r) ms)
     \<and> app_store w' = app_store w
     \<and> events w' = events w @
          concat (map (\<lambda>media. SearchForMissingShows media #
                         (if search_for_missing_shows env media cfg = Inr []
                          then [LogInfo (UnableToFind (title_userPreferred media))]
                          else [])) ms)"
proof (induction ms arbitrary: acc w)
  case Nil
  then show ?case by simp
next
  case (Cons m ms)
  from Cons.prems obtain rs where rs: "search_for_missing_shows env m cfg = Inr rs"
    by (cases "search_for_missing_shows env m cfg") auto
  show ?case
  proof (cases "rs = []")
    case True
    with Cons.prems rs have
      "search_missing_loop env cfg ms acc
         (log_info (UnableToFind (title_userPreferred m))
            (emit (SearchForMissingShows m) w)) = (Inr res, w')"
      by simp
    from Cons.IH [OF this] rs True show ?thesis
      by (simp add: emit_def log_info_def)
  next
    case False
    with Cons.prems rs have
      "search_missing_loop env cfg ms (acc @ rs) (emit (SearchForMissingShows m) w)
         = (Inr res, w')"
      by simp
    from Cons.IH [OF this] rs False show ?thesis
      by (simp add: emit_def)
  qed
qed

lemma search_found_loop_trace:
  "search_found_loop env cfg ps acc w = (Inr res, w') \<Longrightarrow>
     res = acc @ concat (map (\<lambda>(show, media). case search_for_shows env show media cfg of
                                        Inl _ \<Rightarrow> [] | Inr r \<Rightarrow> r) ps)
     \<and> app_store w' = app_store w
     \<and> events w' = events w @
          concat (map (\<lambda>(show, media). SearchForShows show media #
                         (if search_for_shows env show media cfg = Inr []
                          then [LogInfo (NoNewReleases media)]
                          else [])) ps)"
proof (induction ps arbitrary: acc w)
  case Nil
  then show ?case by simp
next
  case (Cons p ps)
  obtain s m where p: "p = (s, m)" by (cases p)
  from Cons.prems p obtain rs where rs: "search_for_shows env s m cfg = Inr rs"
    by (cases "search_for_shows env s m cfg") auto
  show ?case
  proof (cases "rs = []")
    case True
    with Cons.prems rs p have
      "search_found_loop env cfg ps acc
         (log_info (NoNewReleases m) (emit (SearchForShows s m) w)) = (Inr res, w')"
      by simp
    from Cons.IH [OF this] rs True p show ?thesis
      by (simp add: emit_def log_info_def)
  next
    case False
    with Cons.prems rs p have
      "search_found_loop env cfg ps (acc @ rs) (emit (SearchForShows s m) w)
         = (Inr res, w')"
      by simp
    from Cons.IH [OF this] rs False p show ?thesis
      by (simp add: emit_def)
  qed
qed

text \<open>
  Claim C5, as amended.  When \<^verbatim>\<open>search_nyaa_for_shows\<close> returns, its result is the
  concatenation of the results of the searches for the found items followed by the results
  of the searches for the missing entries (line 143), each group in the order in which its
  searches were issued.  The trace shows that order: after the first log entry, one search
  for each missing entry, in the order of the missing sequence; after the second log entry,
  one search for each pair of the zipped found and matched sequences, in their order; an
  empty result is followed by its log entry.
\<close>

theorem search_nyaa_for_shows_order:
  assumes "search_nyaa_for_shows env cfg download_queue w = (Inr results, w')"
  shows "results =
           concat (map (\<lambda>(show, media). case search_for_shows env show media cfg of
                                           Inl _ \<Rightarrow> [] | Inr r \<Rightarrow> r)
                     (zip (shows_found_in_plex download_queue)
                          (show_media_entry_in_plex download_queue)))
         @ concat (map (\<lambda>media. case search_for_missing_shows env media cfg of
                                   Inl _ \<Rightarrow> [] | Inr r \<Rightarrow> r)
                     (shows_missing_in_plex download_queue))
     \<and> events w' = events w @
         LogInfo SearchingMissing #
         concat (map (\<lambda>media. SearchForMissingShows media #
                        (if search_for_missing_shows env media cfg = Inr []
                         then [LogInfo (UnableToFind (title_userPreferred media))]
                         else []))
                   (shows_missing_in_plex download_queue))
         @ LogInfo SearchingMatching #
         concat (map (\<lambda>(show, media). SearchForShows show media #
                        (if search_for_shows env show media cfg = Inr []
                         then [LogInfo (NoNewReleases media)]
                         else []))
                   (zip (shows_found_in_plex download_queue)
                        (show_media_entry_in_plex download_queue)))"
proof -
  from assms obtain rm w1 where
    m: "search_missing_loop env cfg (shows_missing_in_plex download_queue) []
          (log_info SearchingMissing w) = (Inr rm, w1)"
    by (auto simp add: search_nyaa_for_shows_def split: prod.splits sum.splits)
  with assms obtain rf where
    f: "search_found_loop env cfg
          (zip (shows_found_in_plex download_queue)
               (show_media_entry_in_plex download_queue)) []
          (log_info SearchingMatching w1) = (Inr rf, w')"
    and res: "results = rf @ rm"
    by (auto simp add: search_nyaa_for_shows_def split: prod.splits sum.splits)
  from search_missing_loop_trace [OF m] search_found_loop_trace [OF f] res
  show ?thesis
    by (simp add: log_info_def emit_def)
qed

theorem search_nyaa_for_shows_order_witness:
  "search_nyaa_for_shows one_result_each config0 queue_both world0
     = (Inr [torrent_found, torrent_missing],
        \<lparr>app_store = [],
         events = [LogInfo SearchingMissing, SearchForMissingShows entry_current,
                   LogInfo SearchingMatching,
                   SearchForShows (Show ''Show D'') entry_watching]\<rparr>)"
  using search_nyaa_for_shows_order [of one_result_each config0 queue_both world0
           "[torrent_found, torrent_missing]"
           "snd (search_nyaa_for_shows one_result_each config0 queue_both world0)"]
  by (simp add: search_nyaa_for_shows_def one_result_each_def collaborators0_def
        queue_both_def log_info_def emit_def world0_def)

text \<open>
  Claim C5, as stated, fails: with one candidate from the missing search and one from the
  found search, the result is not the missing-search results followed by the found-search
  results.
\<close>

theorem search_nyaa_for_shows_missing_first_counterexample:
  "search_for_missing_shows one_result_each entry_current config0 = Inr [torrent_missing]
   \<and> search_for_shows one_result_each (Show ''Show D'') entry_watching config0
       = Inr [torrent_found]
   \<and> fst (search_nyaa_for_shows one_result_each config0 queue_both world0)
       \<noteq> Inr ([torrent_missing] @ [torrent_found])"
  by (simp add: search_nyaa_for_shows_def one_result_each_def collaborators0_def
        queue_both_def log_info_def emit_def torrent_missing_def torrent_found_def)

subsection \<open>The store\<close>

lemma store_search_replace:
  "store_search (map (\<lambda>x. if name x = name r then r else x) st) n =
     (if n = name r then replicate (length (store_search st n)) r else store_search st n)"
  by (induction st) (auto simp add: store_search_def)

lemma store_search_save_or_update:
  "store_search (store_save_or_update r st) n =
     (if n = name r then
        (if store_search st n = [] then [r] else replicate (length (store_search st n)) r)
      else store_search st n)"
  by (simp add: store_save_or_update_def store_search_replace)
    (simp add: store_search_def)

lemma store_search_save_or_update_nonempty:
  "store_search st n \<noteq> [] \<Longrightarrow> store_search (store_save_or_update r st) n \<noteq> []"
  by (simp add: store_search_save_or_update)

lemma store_search_save_or_update_same:
  "store_search (store_save_or_update r st) (name r) \<noteq> []"
  by (simp add: store_search_save_or_update)

subsection \<open>The decision phase\<close>

text \<open>
  Claim C10.  When \<^verbatim>\<open>add_torrent_magnet\<close> returns a boolean, \<^verbatim>\<open>__queue_downloaded_torrent_file\<close>
  returns that boolean, the candidate's \<^verbatim>\<open>is_queued\<close> is set to it, whether true or false,
  and the record is upserted exactly when it is true: on false the store is unchanged and
  the only outside call is the enqueue attempt.
\<close>

theorem queue_downloaded_torrent_file_flag:
  assumes "add_torrent_magnet env (download_url torrent_info) = Inr success"
  shows "queue_downloaded_torrent_file env torrent_info w =
           (Inr (success, torrent_info\<lparr>is_queued := success\<rparr>),
            if success then
              w\<lparr>app_store :=
                   store_save_or_update (torrent_info\<lparr>is_queued := True\<rparr>) (app_store w),
                events := events w @
                   [AddTorrentMagnet (download_url torrent_info),
                    StoreSaveOrUpdate (torrent_info\<lparr>is_queued := True\<rparr>)]\<rparr>
            else
              w\<lparr>events := events w @ [AddTorrentMagnet (download_url torrent_info)]\<rparr>)"
  using assms
  by (simp add: queue_downloaded_torrent_file_def app_store_save_or_update_def
        create_dictionary_class_def emit_def Let_def)

theorem queue_downloaded_torrent_file_flag_witness:
  "add_torrent_magnet magnet_rejected (download_url torrent_flagged) = Inr False
   \<and> is_queued torrent_flagged
   \<and> queue_downloaded_torrent_file magnet_rejected torrent_flagged world0
       = (Inr (False, torrent_flagged\<lparr>is_queued := False\<rparr>),
          \<lparr>app_store = [], events = [AddTorrentMagnet ''magnet:?xt=urn:btih:b05'']\<rparr>)
   \<and> add_torrent_magnet collaborators0 (download_url torrent_missing) = Inr True
   \<and> queue_downloaded_torrent_file collaborators0 torrent_missing world0
       = (Inr (True, torrent_missing\<lparr>is_queued := True\<rparr>),
          \<lparr>app_store = [torrent_missing\<lparr>is_queued := True\<rparr>],
           events = [AddTorrentMagnet ''magnet:?xt=urn:btih:b05'',
                     StoreSaveOrUpdate (torrent_missing\<lparr>is_queued := True\<rparr>)]\<rparr>)"
  using queue_downloaded_torrent_file_flag [of magnet_rejected torrent_flagged False world0]
        queue_downloaded_torrent_file_flag [of collaborators0 torrent_missing True world0]
  by (auto simp add: magnet_rejected_def collaborators0_def torrent_flagged_def
        torrent_missing_def world0_def store_save_or_update_def store_search_def)

text \<open>
  Claim C4, as amended.  After a successful direct download of a candidate that has its
  \<^verbatim>\<open>anime_info\<close>, \<^verbatim>\<open>__download_torrent_file\<close> first upserts the record (line 156), then
  invokes \<^verbatim>\<open>copy_or_move_file\<close> with the monitored directory as destination (line 161), and
  upserts the record a second time when the move returns (line 180); when the move raises
  an \<^verbatim>\<open>Exception\<close>, the error is logged instead, and any other raise leaves the method
  after the move.
\<close>

theorem download_torrent_file_step_order:
  assumes "download_torrent_file env torrent_info cfg = Inr True"
    and "anime_info torrent_info = Some info"
  shows "download_torrent_file_step env cfg torrent_info w =
           (case copy_or_move_file env (name torrent_info @ ''.torrent'')
                   (build_parent_save_path cfg (anime_title info))
                   (torrent_monitor_directory cfg)
                   (torrent_keep_file_after_queuing cfg) of
              Inl e \<Rightarrow> if is_Exception e then Inr () else Inl e
            | Inr _ \<Rightarrow> Inr (),
            w\<lparr>app_store :=
                (case copy_or_move_file env (name torrent_info @ ''.torrent'')
                        (build_parent_save_path cfg (anime_title info))
                        (torrent_monitor_directory cfg)
                        (torrent_keep_file_after_queuing cfg) of
                   Inl e \<Rightarrow> store_save_or_update torrent_info (app_store w)
                 | Inr _ \<Rightarrow> store_save_or_update torrent_info
                              (store_save_or_update torrent_info (app_store w))),
              events := events w @
                [LogInfo (DownloadingTorrent (name torrent_info)),
                 DownloadTorrentFile torrent_info,
                 StoreSaveOrUpdate torrent_info,
                 LogInfo (DownloadSuccessful (Some info)),
                 CopyOrMoveFile (name torrent_info @ ''.torrent'')
                   (build_parent_save_path cfg (anime_title info))
                   (torrent_monitor_directory cfg)
                   (torrent_keep_file_after_queuing cfg)]
                @ (case copy_or_move_file env (name torrent_info @ ''.torrent'')
                          (build_parent_save_path cfg (anime_title info))
                          (torrent_monitor_directory cfg)
                          (torrent_keep_file_after_queuing cfg) of
                     Inl e \<Rightarrow> if is_Exception e then [LogError (MoveError e)] else []
                   | Inr _ \<Rightarrow> [StoreSaveOrUpdate torrent_info])\<rparr>)"
  using assms
  by (simp add: download_torrent_file_step_def move_torrent_to_monitored_directory_def
        app_store_save_or_update_def create_dictionary_class_def emit_def log_info_def
        log_error_def Let_def split: sum.splits)

theorem download_torrent_file_step_order_witness:
  "download_torrent_file magnet_rejected torrent_missing config0 = Inr True
   \<and> anime_info torrent_missing = Some \<lparr>anime_title = ''Show B''\<rparr>
   \<and> download_torrent_file_step magnet_rejected config0 torrent_missing world0
       = (Inr (),
          \<lparr>app_store = [torrent_missing],
           events =
             [LogInfo (DownloadingTorrent ''Show.B.E05''),
              DownloadTorrentFile torrent_missing,
              StoreSaveOrUpdate torrent_missing,
              LogInfo (DownloadSuccessful (Some \<lparr>anime_title = ''Show B''\<rparr>)),
              CopyOrMoveFile ''Show.B.E05.torrent'' ''/anime/Show B'' ''/watch'' False,
              StoreSaveOrUpdate torrent_missing]\<rparr>)"
  using download_torrent_file_step_order [of magnet_rejected torrent_missing config0
          "\<lparr>anime_title = ''Show B''\<rparr>" world0]
  by (auto simp add: magnet_rejected_def collaborators0_def torrent_missing_def config0_def
        world0_def store_save_or_update_def store_search_def)

text \<open>
  Claim C4, as stated, fails: in the fallback path of a candidate whose magnet the client
  refuses, the record is upserted before the file is moved.
\<close>

theorem fallback_upsert_before_move_counterexample:
  "events (snd (process_torrent magnet_rejected config0 torrent_missing world0)) =
     [StoreSearch ''Show.B.E05'',
      AddTorrentMagnet ''magnet:?xt=urn:btih:b05'',
      LogInfo (DownloadingTorrent ''Show.B.E05''),
      DownloadTorrentFile torrent_missing,
      StoreSaveOrUpdate torrent_missing,
      LogInfo (DownloadSuccessful (Some \<lparr>anime_title = ''Show B''\<rparr>)),
      CopyOrMoveFile ''Show.B.E05.torrent'' ''/anime/Show B'' ''/watch'' False,
      StoreSaveOrUpdate torrent_missing]"
  by (simp add: process_torrent_def find_downloadable_torrents_def app_store_search_def
        queue_downloaded_torrent_file_def download_torrent_file_step_def
        move_torrent_to_monitored_directory_def app_store_save_or_update_def
        create_dictionary_class_def emit_def log_info_def log_error_def Let_def
        magnet_rejected_def collaborators0_def torrent_missing_def config0_def
        world0_def store_save_or_update_def store_search_def)

lemmas decision_defs =
  process_torrent_def find_downloadable_torrents_def app_store_search_def
  queue_downloaded_torrent_file_def download_torrent_file_step_def
  move_torrent_to_monitored_directory_def app_store_save_or_update_def
  create_dictionary_class_def emit_def log_info_def log_error_def Let_def

lemma process_torrent_skip:
  "anime_info t \<noteq> None \<Longrightarrow> store_search (app_store w) (name t) \<noteq> [] \<Longrightarrow>
     process_torrent env cfg t w =
       (Inr t, w\<lparr>events := events w @
                  [StoreSearch (name t), LogInfo (SkippingExisting (anime_info t))]\<rparr>)"
  by (auto simp add: decision_defs)

lemma process_torrent_no_info:
  "anime_info t = None \<Longrightarrow>
     process_torrent env cfg t w =
       (Inr t, w\<lparr>events := events w @ [LogInfo (SkippingWithoutAnimeInfo t)]\<rparr>)"
  by (simp add: decision_defs)

lemma process_torrent_first_event:
  "\<exists>evs. events (snd (process_torrent env cfg t w)) =
      events w @ (if anime_info t = None then LogInfo (SkippingWithoutAnimeInfo t)
                  else StoreSearch (name t)) # evs"
  by (auto simp add: decision_defs split: sum.splits option.splits)

lemma process_torrent_own_events:
  "\<exists>evs. events (snd (process_torrent env cfg t w)) = events w @ evs
         \<and> (\<forall>ev \<in> set evs. own_event t ev)"
  by (auto simp add: decision_defs split: sum.splits option.splits)

lemma process_torrent_store:
  "store_search (app_store w) X \<noteq> [] \<Longrightarrow>
     store_search (app_store (snd (process_torrent env cfg t w))) X \<noteq> []"
  by (auto simp add: decision_defs store_search_save_or_update split: sum.splits option.splits)

lemma process_torrent_returns:
  "add_torrent_magnet env (download_url t) = Inr b \<Longrightarrow>
   download_torrent_file env (t\<lparr>is_queued := False\<rparr>) cfg = Inr b' \<Longrightarrow>
   \<forall>f d p k e. copy_or_move_file env f d p k = Inl e \<longrightarrow> is_Exception e \<Longrightarrow>
     \<exists>t'. fst (process_torrent env cfg t w) = Inr t'"
  by (auto simp add: decision_defs split: sum.splits option.splits)

lemma foreign_event_mono:
  "foreign_event X cs ev \<Longrightarrow> set cs \<subseteq> set cs' \<Longrightarrow> foreign_event X cs' ev"
  by (cases ev) (auto simp add: foreign_event_def)

lemma own_event_foreign:
  "own_event t ev \<Longrightarrow> name t \<noteq> X \<Longrightarrow> foreign_event X [t] ev"
  by (cases ev) (simp_all add: foreign_event_def)

lemma process_torrent_foreign:
  assumes "store_search (app_store w) X \<noteq> []"
  shows "\<exists>evs. events (snd (process_torrent env cfg t w)) = events w @ evs
           \<and> (\<forall>ev \<in> set evs. foreign_event X [t] ev)"
proof (cases "name t = X")
  case False
  from process_torrent_own_events [of env cfg t w] obtain evs where
    evs: "events (snd (process_torrent env cfg t w)) = events w @ evs"
      "\<forall>ev \<in> set evs. own_event t ev"
    by blast
  have "\<forall>ev \<in> set evs. foreign_event X [t] ev"
  proof
    fix ev assume "ev \<in> set evs"
    with evs(2) have "own_event t ev" by simp
    then show "foreign_event X [t] ev" using False by (rule own_event_foreign)
  qed
  with evs(1) show ?thesis by blast
next
  case True
  show ?thesis
  proof (cases "anime_info t = None")
    case True
    then show ?thesis
      by (simp add: process_torrent_no_info foreign_event_def)
  next
    case False
    with assms \<open>name t = X\<close> show ?thesis
      by (simp add: process_torrent_skip foreign_event_def)
  qed
qed

lemma snd_process_search_results_Cons:
  "snd (process_search_results env cfg (c # cs) w) =
     (case process_torrent env cfg c w of
        (Inl e, w1) \<Rightarrow> w1
      | (Inr c', w1) \<Rightarrow> snd (process_search_results env cfg cs w1))"
  by (simp split: prod.splits sum.splits)

lemma process_search_results_foreign:
  "store_search (app_store w) X \<noteq> [] \<Longrightarrow>
     \<exists>evs. events (snd (process_search_results env cfg cs w)) = events w @ evs
          \<and> (\<forall>ev \<in> set evs. foreign_event X cs ev)"
proof (induction cs arbitrary: w)
  case Nil
  then show ?case by simp
next
  case (Cons c cs)
  obtain r w1 where pt: "process_torrent env cfg c w = (r, w1)"
    by (cases "process_torrent env cfg c w")
  from process_torrent_foreign [OF Cons.prems, of env cfg c] pt obtain evs1 where
    evs1: "events w1 = events w @ evs1" "\<forall>ev \<in> set evs1. foreign_event X [c] ev"
    by auto
  have evs1': "\<forall>ev \<in> set evs1. foreign_event X (c # cs) ev"
  proof
    fix ev assume "ev \<in> set evs1"
    with evs1(2) have "foreign_event X [c] ev" by simp
    then show "foreign_event X (c # cs) ev" by (rule foreign_event_mono) simp
  qed
  show ?case
  proof (cases r)
    case (Inl e)
    with pt evs1(1) evs1' show ?thesis
      by (simp add: snd_process_search_results_Cons del: process_search_results.simps)
  next
    case (Inr c')
    from process_torrent_store [OF Cons.prems, of env cfg c] pt
    have "store_search (app_store w1) X \<noteq> []" by simp
    from Cons.IH [OF this] obtain evs2 where
      evs2: "events (snd (process_search_results env cfg cs w1)) = events w1 @ evs2"
        "\<forall>ev \<in> set evs2. foreign_event X cs ev"
      by blast
    have evs2': "\<forall>ev \<in> set evs2. foreign_event X (c # cs) ev"
    proof
      fix ev assume "ev \<in> set evs2"
      with evs2(2) have "foreign_event X cs ev" by simp
      then show "foreign_event X (c # cs) ev" by (rule foreign_event_mono) auto
    qed
    from evs1' evs2' have "\<forall>ev \<in> set (evs1 @ evs2). foreign_event X (c # cs) ev"
      by (simp add: ball_Un)
    moreover have "events (snd (process_search_results env cfg (c # cs) w))
                     = events w @ (evs1 @ evs2)"
      using pt Inr evs1(1) evs2(1)
      by (simp add: snd_process_search_results_Cons del: process_search_results.simps)
    ultimately show ?thesis by blast
  qed
qed

text \<open>
  Claim C1.  (1) A candidate that has its \<^verbatim>\<open>anime_info\<close> and whose name has a record in the
  store is skipped: processing it makes the store lookup, logs, and does nothing else; the
  store and the candidate are unchanged.  (2) The first outside action on any candidate is
  the store lookup, unless the candidate has no \<^verbatim>\<open>anime_info\<close>, in which case the skip is
  logged and nothing else happens.  (3) When the store holds a record named \<open>X\<close>, a run of
  the decision loop over any candidate list makes no direct download, no file move and no
  upsert for the name \<open>X\<close>, and every enqueue it makes is for a candidate of the list whose
  name is not \<open>X\<close>.
\<close>

theorem dedup_guard:
  "(anime_info t \<noteq> None \<and> store_search (app_store w) (name t) \<noteq> [] \<longrightarrow>
      process_torrent env cfg t w =
        (Inr t, w\<lparr>events := events w @
                   [StoreSearch (name t), LogInfo (SkippingExisting (anime_info t))]\<rparr>))
   \<and> (\<exists>evs. events (snd (process_torrent env cfg t w)) =
              events w @ (if anime_info t = None then LogInfo (SkippingWithoutAnimeInfo t)
                          else StoreSearch (name t)) # evs
            \<and> (anime_info t = None \<longrightarrow> evs = []))
   \<and> (store_search (app_store w) X \<noteq> [] \<longrightarrow>
        (\<exists>evs. events (snd (process_search_results env cfg cs w)) = events w @ evs
           \<and> (\<forall>ev \<in> set evs.
                 (\<forall>u. ev = AddTorrentMagnet u \<longrightarrow>
                        (\<exists>c \<in> set cs. name c \<noteq> X \<and> download_url c = u))
               \<and> (\<forall>c. ev = DownloadTorrentFile c \<longrightarrow> name c \<noteq> X)
               \<and> (\<forall>f d p k. ev = CopyOrMoveFile f d p k \<longrightarrow> f \<noteq> X @ ''.torrent'')
               \<and> (\<forall>r. ev = StoreSaveOrUpdate r \<longrightarrow> name r \<noteq> X))))"
proof (intro conjI impI)
  assume "anime_info t \<noteq> None \<and> store_search (app_store w) (name t) \<noteq> []"
  then show "process_torrent env cfg t w =
        (Inr t, w\<lparr>events := events w @
                   [StoreSearch (name t), LogInfo (SkippingExisting (anime_info t))]\<rparr>)"
    by (simp add: process_torrent_skip)
next
  show "\<exists>evs. events (snd (process_torrent env cfg t w)) =
              events w @ (if anime_info t = None then LogInfo (SkippingWithoutAnimeInfo t)
                          else StoreSearch (name t)) # evs
            \<and> (anime_info t = None \<longrightarrow> evs = [])"
  proof (cases "anime_info t = None")
    case True
    then show ?thesis by (simp add: process_torrent_no_info)
  next
    case False
    with process_torrent_first_event [of env cfg t w] show ?thesis by auto
  qed
next
  assume "store_search (app_store w) X \<noteq> []"
  from process_search_results_foreign [OF this, of env cfg cs]
  show "\<exists>evs. events (snd (process_search_results env cfg cs w)) = events w @ evs
           \<and> (\<forall>ev \<in> set evs.
                 (\<forall>u. ev = AddTorrentMagnet u \<longrightarrow>
                        (\<exists>c \<in> set cs. name c \<noteq> X \<and> download_url c = u))
               \<and> (\<forall>c. ev = DownloadTorrentFile c \<longrightarrow> name c \<noteq> X)
               \<and> (\<forall>f d p k. ev = CopyOrMoveFile f d p k \<longrightarrow> f \<noteq> X @ ''.torrent'')
               \<and> (\<forall>r. ev = StoreSaveOrUpdate r \<longrightarrow> name r \<noteq> X))"
    unfolding foreign_event_def .
qed

theorem dedup_guard_witness:
  "anime_info torrent_missing \<noteq> None
   \<and> store_search (app_store world_handled) (name torrent_missing) \<noteq> []
   \<and> process_torrent collaborators0 config0 torrent_missing world_handled =
       (Inr torrent_missing,
        \<lparr>app_store = [torrent_flagged],
         events = [StoreSearch ''Show.B.E05'',
                   LogInfo (SkippingExisting (Some \<lparr>anime_title = ''Show B''\<rparr>))]\<rparr>)
   \<and> events (snd (process_search_results collaborators0 config0
                     [torrent_missing, torrent_found] world_handled)) =
       [StoreSearch ''Show.B.E05'',
        LogInfo (SkippingExisting (Some \<lparr>anime_title = ''Show B''\<rparr>)),
        StoreSearch ''Show.D.E02'',
        AddTorrentMagnet ''magnet:?xt=urn:btih:d02'',
        StoreSaveOrUpdate (torrent_found\<lparr>is_queued := True\<rparr>)]"
  using dedup_guard [where t = torrent_missing and w = world_handled
          and env = collaborators0 and cfg = config0 and X = "''Show.B.E05''"
          and cs = "[torrent_missing, torrent_found]"]
  by (simp add: decision_defs world_handled_def torrent_flagged_def torrent_missing_def
        torrent_found_def collaborators0_def config0_def store_search_def
        store_save_or_update_def)

lemma process_search_results_append:
  "process_search_results env cfg (pre @ post) w =
     (case process_search_results env cfg pre w of
        (Inl e, w1) \<Rightarrow> (Inl e, w1)
      | (Inr pre', w1) \<Rightarrow>
          (case process_search_results env cfg post w1 of
             (Inl e, w2) \<Rightarrow> (Inl e, w2)
           | (Inr post', w2) \<Rightarrow> (Inr (pre' @ post'), w2)))"
  by (induction pre arbitrary: w) (auto split: prod.splits sum.splits)

lemma process_search_results_all:
  "\<forall>c \<in> set cs. (\<exists>b. add_torrent_magnet env (download_url c) = Inr b)
        \<and> (\<exists>b. download_torrent_file env (c\<lparr>is_queued := False\<rparr>) cfg = Inr b) \<Longrightarrow>
   \<forall>f d p k e. copy_or_move_file env f d p k = Inl e \<longrightarrow> is_Exception e \<Longrightarrow>
     \<exists>cs' w' evs. process_search_results env cfg cs w = (Inr cs', w')
        \<and> length cs' = length cs \<and> events w' = events w @ evs
        \<and> (\<forall>c \<in> set cs. (if anime_info c = None then LogInfo (SkippingWithoutAnimeInfo c)
                            else StoreSearch (name c)) \<in> set evs)"
proof (induction cs arbitrary: w)
  case Nil
  then show ?case by simp
next
  case (Cons c cs)
  from Cons.prems(1) obtain b b' where
    "add_torrent_magnet env (download_url c) = Inr b"
    "download_torrent_file env (c\<lparr>is_queued := False\<rparr>) cfg = Inr b'"
    by auto
  from process_torrent_returns [OF this Cons.prems(2), of w] obtain t' where
    t': "fst (process_torrent env cfg c w) = Inr t'" by blast
  define w1 where "w1 = snd (process_torrent env cfg c w)"
  from t' have pt: "process_torrent env cfg c w = (Inr t', w1)"
    by (simp add: w1_def prod_eq_iff)
  from process_torrent_first_event [of env cfg c w] obtain evs1 where
    evs1: "events w1 = events w @
             (if anime_info c = None then LogInfo (SkippingWithoutAnimeInfo c)
              else StoreSearch (name c)) # evs1"
    unfolding w1_def by blast
  from Cons.prems(1) have "\<forall>c \<in> set cs. (\<exists>b. add_torrent_magnet env (download_url c) = Inr b)
        \<and> (\<exists>b. download_torrent_file env (c\<lparr>is_queued := False\<rparr>) cfg = Inr b)"
    by simp
  from Cons.IH [OF this Cons.prems(2), of w1] obtain cs' w' evs2 where
    ih: "process_search_results env cfg cs w1 = (Inr cs', w')" "length cs' = length cs"
      "events w' = events w1 @ evs2"
      "\<forall>c \<in> set cs. (if anime_info c = None then LogInfo (SkippingWithoutAnimeInfo c)
                            else StoreSearch (name c)) \<in> set evs2"
    by blast
  let ?evs = "(if anime_info c = None then LogInfo (SkippingWithoutAnimeInfo c)
               else StoreSearch (name c)) # evs1 @ evs2"
  have "process_search_results env cfg (c # cs) w = (Inr (t' # cs'), w')"
    using pt ih(1) by simp
  moreover have "length (t' # cs') = length (c # cs)"
    using ih(2) by simp
  moreover have "events w' = events w @ ?evs"
    using evs1 ih(3) by simp
  moreover have "\<forall>x \<in> set (c # cs).
      (if anime_info x = None then LogInfo (SkippingWithoutAnimeInfo x)
       else StoreSearch (name x)) \<in> set ?evs"
    using ih(4) by auto
  ultimately show ?case by blast
qed

lemma process_torrent_magnet_raises:
  "anime_info t \<noteq> None \<Longrightarrow> store_search (app_store w) (name t) = [] \<Longrightarrow>
   add_torrent_magnet env (download_url t) = Inl e \<Longrightarrow>
     process_torrent env cfg t w =
       (Inl e, w\<lparr>events := events w @
                  [StoreSearch (name t), AddTorrentMagnet (download_url t)]\<rparr>)"
  by (auto simp add: decision_defs)

lemma process_torrent_download_raises:
  "anime_info t \<noteq> None \<Longrightarrow> store_search (app_store w) (name t) = [] \<Longrightarrow>
   add_torrent_magnet env (download_url t) = Inr False \<Longrightarrow>
   download_torrent_file env (t\<lparr>is_queued := False\<rparr>) cfg = Inl e \<Longrightarrow>
     process_torrent env cfg t w =
       (Inl e, w\<lparr>events := events w @
                  [StoreSearch (name t), AddTorrentMagnet (download_url t),
                   LogInfo (DownloadingTorrent (name t)),
                   DownloadTorrentFile (t\<lparr>is_queued := False\<rparr>)]\<rparr>)"
  by (auto simp add: decision_defs)

lemma start_application_loop_raises:
  "fetch_anime_list env self w = (Inr anime_list, w1) \<Longrightarrow> anime_list \<noteq> [] \<Longrightarrow>
   find_plex_show env anime_list w1 = (Inr q, w2) \<Longrightarrow> truthy (contains_items q) \<Longrightarrow>
   search_nyaa_for_shows env (app_config self) q w2 = (Inr results, w3) \<Longrightarrow>
   process_search_results env (app_config self) results w3 = (Inl e, w4) \<Longrightarrow>
     start_application env self w =
       (if is_Exception e
        then (Inr (), w4\<lparr>events := events w4 @ [LogError (UncaughtException e)]\<rparr>)
        else (Inl e, w4))"
  by (cases results)
    (simp_all add: start_application_def start_application_body_def log_error_def emit_def)

text \<open>
  Claim C3, as amended.  (1) When neither \<^verbatim>\<open>add_torrent_magnet\<close> nor
  \<^verbatim>\<open>download_torrent_file\<close> raises for the candidates of the list, and every raise of
  \<^verbatim>\<open>copy_or_move_file\<close> is an \<^verbatim>\<open>Exception\<close>, the decision loop returns normally and every
  candidate is processed: a failure reported by a false return value, and an
  \<^verbatim>\<open>Exception\<close> raised by the file move, are absorbed at the candidate.  (2) When
  \<^verbatim>\<open>add_torrent_magnet\<close> raises on a candidate that has no record yet, at any position of
  the list, the loop ends there with that error: the trace stops at the enqueue attempt
  and the candidates after it are not processed.  (3) Likewise when the magnet is refused
  and \<^verbatim>\<open>download_torrent_file\<close> raises: the trace stops at the download.  (4) An error that
  leaves the loop leaves the body of \<^verbatim>\<open>start_application\<close>, whose handler logs it and
  returns when it is an \<^verbatim>\<open>Exception\<close>.
\<close>

theorem decision_phase_fail_soft:
  "((\<forall>c \<in> set cs. (\<exists>b. add_torrent_magnet env (download_url c) = Inr b)
        \<and> (\<exists>b. download_torrent_file env (c\<lparr>is_queued := False\<rparr>) cfg = Inr b))
     \<and> (\<forall>f d p k e. copy_or_move_file env f d p k = Inl e \<longrightarrow> is_Exception e) \<longrightarrow>
      (\<exists>cs' w' evs. process_search_results env cfg cs w = (Inr cs', w')
         \<and> length cs' = length cs \<and> events w' = events w @ evs
         \<and> (\<forall>c \<in> set cs. (if anime_info c = None then LogInfo (SkippingWithoutAnimeInfo c)
                             else StoreSearch (name c)) \<in> set evs)))
   \<and> (process_search_results env cfg pre w = (Inr pre', w0)
        \<and> anime_info t \<noteq> None \<and> store_search (app_store w0) (name t) = []
        \<and> add_torrent_magnet env (download_url t) = Inl e \<longrightarrow>
       process_search_results env cfg (pre @ t # rest) w =
         (Inl e, w0\<lparr>events := events w0 @
                     [StoreSearch (name t), AddTorrentMagnet (download_url t)]\<rparr>))
   \<and> (process_search_results env cfg pre w = (Inr pre', w0)
        \<and> anime_info t \<noteq> None \<and> store_search (app_store w0) (name t) = []
        \<and> add_torrent_magnet env (download_url t) = Inr False
        \<and> download_torrent_file env (t\<lparr>is_queued := False\<rparr>) cfg = Inl e \<longrightarrow>
       process_search_results env cfg (pre @ t # rest) w =
         (Inl e, w0\<lparr>events := events w0 @
                     [StoreSearch (name t), AddTorrentMagnet (download_url t),
                      LogInfo (DownloadingTorrent (name t)),
                      DownloadTorrentFile (t\<lparr>is_queued := False\<rparr>)]\<rparr>))
   \<and> (fetch_anime_list env self w = (Inr anime_list, w1) \<and> anime_list \<noteq> []
        \<and> find_plex_show env anime_list w1 = (Inr q, w2) \<and> truthy (contains_items q)
        \<and> search_nyaa_for_shows env (app_config self) q w2 = (Inr results, w3)
        \<and> process_search_results env (app_config self) results w3 = (Inl e, w4) \<longrightarrow>
       start_application env self w =
         (if is_Exception e
          then (Inr (), w4\<lparr>events := events w4 @ [LogError (UncaughtException e)]\<rparr>)
          else (Inl e, w4)))"
proof (intro conjI impI)
  assume "(\<forall>c \<in> set cs. (\<exists>b. add_torrent_magnet env (download_url c) = Inr b)
        \<and> (\<exists>b. download_torrent_file env (c\<lparr>is_queued := False\<rparr>) cfg = Inr b))
     \<and> (\<forall>f d p k e. copy_or_move_file env f d p k = Inl e \<longrightarrow> is_Exception e)"
  then show "\<exists>cs' w' evs. process_search_results env cfg cs w = (Inr cs', w')
         \<and> length cs' = length cs \<and> events w' = events w @ evs
         \<and> (\<forall>c \<in> set cs. (if anime_info c = None then LogInfo (SkippingWithoutAnimeInfo c)
                             else StoreSearch (name c)) \<in> set evs)"
    using process_search_results_all [of cs env cfg w] by blast
next
  assume "process_search_results env cfg pre w = (Inr pre', w0)
        \<and> anime_info t \<noteq> None \<and> store_search (app_store w0) (name t) = []
        \<and> add_torrent_magnet env (download_url t) = Inl e"
  then show "process_search_results env cfg (pre @ t # rest) w =
         (Inl e, w0\<lparr>events := events w0 @
                     [StoreSearch (name t), AddTorrentMagnet (download_url t)]\<rparr>)"
    by (simp add: process_search_results_append process_torrent_magnet_raises)
next
  assume "process_search_results env cfg pre w = (Inr pre', w0)
        \<and> anime_info t \<noteq> None \<and> store_search (app_store w0) (name t) = []
        \<and> add_torrent_magnet env (download_url t) = Inr False
        \<and> download_torrent_file env (t\<lparr>is_queued := False\<rparr>) cfg = Inl e"
  then show "process_search_results env cfg (pre @ t # rest) w =
         (Inl e, w0\<lparr>events := events w0 @
                     [StoreSearch (name t), AddTorrentMagnet (download_url t),
                      LogInfo (DownloadingTorrent (name t)),
                      DownloadTorrentFile (t\<lparr>is_queued := False\<rparr>)]\<rparr>)"
    by (simp add: process_search_results_append process_torrent_download_raises)
next
  assume "fetch_anime_list env self w = (Inr anime_list, w1) \<and> anime_list \<noteq> []
        \<and> find_plex_show env anime_list w1 = (Inr q, w2) \<and> truthy (contains_items q)
        \<and> search_nyaa_for_shows env (app_config self) q w2 = (Inr results, w3)
        \<and> process_search_results env (app_config self) results w3 = (Inl e, w4)"
  then show "start_application env self w =
         (if is_Exception e
          then (Inr (), w4\<lparr>events := events w4 @ [LogError (UncaughtException e)]\<rparr>)
          else (Inl e, w4))"
    using start_application_loop_raises [of env self w anime_list w1 q w2 results w3 e w4]
    by blast
qed

theorem decision_phase_fail_soft_witness:
  "add_torrent_magnet move_raises (download_url torrent_missing) = Inr False
   \<and> download_torrent_file move_raises (torrent_missing\<lparr>is_queued := False\<rparr>) config0
        = Inr True
   \<and> copy_or_move_file move_raises ''Show.B.E05.torrent'' ''/anime/Show B'' ''/watch'' False
        = Inl (Exception ''IOError'')
   \<and> process_search_results move_raises config0 [torrent_missing, torrent_found] world0 =
       (Inr [torrent_missing, torrent_found],
        \<lparr>app_store = [torrent_missing, torrent_found],
         events =
           [StoreSearch ''Show.B.E05'',
            AddTorrentMagnet ''magnet:?xt=urn:btih:b05'',
            LogInfo (DownloadingTorrent ''Show.B.E05''),
            DownloadTorrentFile torrent_missing,
            StoreSaveOrUpdate torrent_missing,
            LogInfo (DownloadSuccessful (Some \<lparr>anime_title = ''Show B''\<rparr>)),
            CopyOrMoveFile ''Show.B.E05.torrent'' ''/anime/Show B'' ''/watch'' False,
            LogError (MoveError (Exception ''IOError'')),
            StoreSearch ''Show.D.E02'',
            AddTorrentMagnet ''magnet:?xt=urn:btih:d02'',
            LogInfo (DownloadingTorrent ''Show.D.E02''),
            DownloadTorrentFile torrent_found,
            StoreSaveOrUpdate torrent_found,
            LogInfo (DownloadSuccessful (Some \<lparr>anime_title = ''Show D''\<rparr>)),
            CopyOrMoveFile ''Show.D.E02.torrent'' ''/anime/Show D'' ''/watch'' False,
            LogError (MoveError (Exception ''IOError''))]\<rparr>)
   \<and> process_search_results second_magnet_raises config0 [torrent_missing] world0 =
       (Inr [torrent_flagged],
        \<lparr>app_store = [torrent_flagged],
         events = [StoreSearch ''Show.B.E05'', AddTorrentMagnet ''magnet:?xt=urn:btih:b05'',
                   StoreSaveOrUpdate torrent_flagged]\<rparr>)
   \<and> add_torrent_magnet second_magnet_raises (download_url torrent_found)
        = Inl (Exception ''ConnectionError'')
   \<and> process_search_results second_magnet_raises config0
         ([torrent_missing] @ torrent_found # [torrent_third]) world0 =
       (Inl (Exception ''ConnectionError''),
        \<lparr>app_store = [torrent_flagged],
         events = [StoreSearch ''Show.B.E05'', AddTorrentMagnet ''magnet:?xt=urn:btih:b05'',
                   StoreSaveOrUpdate torrent_flagged,
                   StoreSearch ''Show.D.E02'',
                   AddTorrentMagnet ''magnet:?xt=urn:btih:d02'']\<rparr>)
   \<and> add_torrent_magnet download_raises (download_url torrent_missing) = Inr False
   \<and> download_torrent_file download_raises (torrent_missing\<lparr>is_queued := False\<rparr>) config0
        = Inl (Exception ''HTTPError'')
   \<and> process_search_results download_raises config0
         ([] @ torrent_missing # [torrent_found]) world0 =
       (Inl (Exception ''HTTPError''),
        \<lparr>app_store = [],
         events = [StoreSearch ''Show.B.E05'', AddTorrentMagnet ''magnet:?xt=urn:btih:b05'',
                   LogInfo (DownloadingTorrent ''Show.B.E05''),
                   DownloadTorrentFile torrent_missing]\<rparr>)
   \<and> search_nyaa_for_shows client_raises config0
         \<lparr>shows_found_in_plex = [], shows_missing_in_plex = [entry_current],
          show_media_entry_in_plex = []\<rparr>
         \<lparr>app_store = [],
          events = [MakeRequest, AniListSearch (Some ''CURRENT''),
                    FindAllByTitle entry_current, LogInfo (FetchedShows 0 1)]\<rparr> =
       (Inr [torrent_missing, torrent_found],
        \<lparr>app_store = [],
         events = [MakeRequest, AniListSearch (Some ''CURRENT''),
                   FindAllByTitle entry_current, LogInfo (FetchedShows 0 1),
                   LogInfo SearchingMissing, SearchForMissingShows entry_current,
                   LogInfo SearchingMatching]\<rparr>)
   \<and> start_application client_raises controller0 world0 =
       (Inr (),
        \<lparr>app_store = [],
         events = [MakeRequest, AniListSearch (Some ''CURRENT''),
                   FindAllByTitle entry_current, LogInfo (FetchedShows 0 1),
                   LogInfo SearchingMissing, SearchForMissingShows entry_current,
                   LogInfo SearchingMatching,
                   StoreSearch ''Show.B.E05'', AddTorrentMagnet ''magnet:?xt=urn:btih:b05'',
                   LogError (UncaughtException (Exception ''ConnectionError''))]\<rparr>)"
  using decision_phase_fail_soft [where cs = "[torrent_missing, torrent_found]"
          and env = move_raises and cfg = config0 and w = world0 and pre = "[]"
          and pre' = "[]" and ?w0.0 = world0 and t = torrent_missing
          and e = "Exception ''IOError''" and rest = "[]" and self = controller0
          and anime_list = "[]"]
        decision_phase_fail_soft [where cs = "[]"
          and env = second_magnet_raises and cfg = config0 and w = world0
          and pre = "[torrent_missing]" and pre' = "[torrent_flagged]"
          and ?w0.0 = "\<lparr>app_store = [torrent_flagged],
                 events = [StoreSearch ''Show.B.E05'',
                           AddTorrentMagnet ''magnet:?xt=urn:btih:b05'',
                           StoreSaveOrUpdate torrent_flagged]\<rparr>"
          and t = torrent_found and e = "Exception ''ConnectionError''"
          and rest = "[torrent_third]" and self = controller0 and anime_list = "[]"]
        decision_phase_fail_soft [where cs = "[]"
          and env = download_raises and cfg = config0 and w = world0
          and pre = "[]" and pre' = "[]" and ?w0.0 = world0
          and t = torrent_missing and e = "Exception ''HTTPError''"
          and rest = "[torrent_found]" and self = controller0 and anime_list = "[]"]
        decision_phase_fail_soft [where cs = "[]"
          and env = client_raises and cfg = config0 and w = world0
          and pre = "[]" and pre' = "[]" and ?w0.0 = world0
          and t = torrent_missing and e = "Exception ''ConnectionError''"
          and rest = "[torrent_found]" and self = controller0
          and anime_list = "[entry_current]"
          and ?w1.0 = "\<lparr>app_store = [],
                 events = [MakeRequest, AniListSearch (Some ''CURRENT'')]\<rparr>"
          and q = "\<lparr>shows_found_in_plex = [], shows_missing_in_plex = [entry_current],
                    show_media_entry_in_plex = []\<rparr>"
          and ?w2.0 = "\<lparr>app_store = [],
                 events = [MakeRequest, AniListSearch (Some ''CURRENT''),
                           FindAllByTitle entry_current, LogInfo (FetchedShows 0 1)]\<rparr>"
          and results = "[torrent_missing, torrent_found]"
          and ?w3.0 = "\<lparr>app_store = [],
                 events = [MakeRequest, AniListSearch (Some ''CURRENT''),
                           FindAllByTitle entry_current, LogInfo (FetchedShows 0 1),
                           LogInfo SearchingMissing, SearchForMissingShows entry_current,
                           LogInfo SearchingMatching]\<rparr>"
          and ?w4.0 = "\<lparr>app_store = [],
                 events = [MakeRequest, AniListSearch (Some ''CURRENT''),
                           FindAllByTitle entry_current, LogInfo (FetchedShows 0 1),
                           LogInfo SearchingMissing, SearchForMissingShows entry_current,
                           LogInfo SearchingMatching, StoreSearch ''Show.B.E05'',
                           AddTorrentMagnet ''magnet:?xt=urn:btih:b05'']\<rparr>"]
  by (simp add: start_application_def start_application_body_def fetch_anime_list_def
        find_plex_show_def empty_queue_def contains_items_def py_or_def
        search_nyaa_for_shows_def decision_defs move_raises_def magnet_rejected_def
        client_raises_def download_raises_def second_magnet_raises_def controller0_def
        collaborators0_def config0_def world0_def entry_current_def torrent_missing_def
        torrent_found_def torrent_third_def torrent_flagged_def store_search_def
        store_save_or_update_def)

text \<open>
  Claim C3, as stated, fails: the download client raises on the first of two candidates;
  the loop ends with that error and the second candidate is not processed (no store lookup
  is made for it).
\<close>

theorem decision_phase_abort_counterexample:
  "process_search_results client_raises config0 [torrent_missing, torrent_found] world0 =
     (Inl (Exception ''ConnectionError''),
      \<lparr>app_store = [],
       events = [StoreSearch ''Show.B.E05'',
                 AddTorrentMagnet ''magnet:?xt=urn:btih:b05'']\<rparr>)"
  by (simp add: decision_defs client_raises_def collaborators0_def config0_def world0_def
        torrent_missing_def torrent_found_def store_search_def store_save_or_update_def)

text \<open>
  Claim C6.  For a candidate with no record in the store, whose magnet the client refuses,
  whose direct download succeeds and whose file move raises a failure (an instance of
  \<^verbatim>\<open>Exception\<close>, as an I/O failure is): the error is logged
  (the last event), processing the candidate returns normally, the store then holds the
  record of the candidate, the loop goes on with the remaining candidates, and any later
  processing of a candidate of that name is skipped.
\<close>

theorem move_failure_keeps_record:
  assumes info: "anime_info t = Some info"
    and fresh: "store_search (app_store w) (name t) = []"
    and magnet: "add_torrent_magnet env (download_url t) = Inr False"
    and download: "download_torrent_file env (t\<lparr>is_queued := False\<rparr>) cfg = Inr True"
    and move: "copy_or_move_file env (name t @ ''.torrent'')
                 (build_parent_save_path cfg (anime_title info))
                 (torrent_monitor_directory cfg)
                 (torrent_keep_file_after_queuing cfg) = Inl e"
    and failure: "is_Exception e"
  shows "\<exists>w'. process_torrent env cfg t w = (Inr (t\<lparr>is_queued := False\<rparr>), w')
     \<and> events w' = events w @
          [StoreSearch (name t),
           AddTorrentMagnet (download_url t),
           LogInfo (DownloadingTorrent (name t)),
           DownloadTorrentFile (t\<lparr>is_queued := False\<rparr>),
           StoreSaveOrUpdate (t\<lparr>is_queued := False\<rparr>),
           LogInfo (DownloadSuccessful (Some info)),
           CopyOrMoveFile (name t @ ''.torrent'')
             (build_parent_save_path cfg (anime_title info))
             (torrent_monitor_directory cfg) (torrent_keep_file_after_queuing cfg),
           LogError (MoveError e)]
     \<and> store_search (app_store w') (name t) = [t\<lparr>is_queued := False\<rparr>]
     \<and> process_search_results env cfg (t # rest) w =
          (case process_search_results env cfg rest w' of
             (Inl e', w2) \<Rightarrow> (Inl e', w2)
           | (Inr rest', w2) \<Rightarrow> (Inr (t\<lparr>is_queued := False\<rparr> # rest'), w2))
     \<and> (\<forall>env2 cfg2 c. name c = name t \<and> anime_info c \<noteq> None \<longrightarrow>
           process_torrent env2 cfg2 c w' =
             (Inr c, w'\<lparr>events := events w' @
                [StoreSearch (name c), LogInfo (SkippingExisting (anime_info c))]\<rparr>))"
proof -
  define w' where "w' = w\<lparr>app_store := store_save_or_update (t\<lparr>is_queued := False\<rparr>) (app_store w),
     events := events w @
          [StoreSearch (name t),
           AddTorrentMagnet (download_url t),
           LogInfo (DownloadingTorrent (name t)),
           DownloadTorrentFile (t\<lparr>is_queued := False\<rparr>),
           StoreSaveOrUpdate (t\<lparr>is_queued := False\<rparr>),
           LogInfo (DownloadSuccessful (Some info)),
           CopyOrMoveFile (name t @ ''.torrent'')
             (build_parent_save_path cfg (anime_title info))
             (torrent_monitor_directory cfg) (torrent_keep_file_after_queuing cfg),
           LogError (MoveError e)]\<rparr>"
  have pt: "process_torrent env cfg t w = (Inr (t\<lparr>is_queued := False\<rparr>), w')"
    using info fresh magnet download move failure
    by (simp add: decision_defs w'_def)
  have ev: "events w' = events w @
          [StoreSearch (name t),
           AddTorrentMagnet (download_url t),
           LogInfo (DownloadingTorrent (name t)),
           DownloadTorrentFile (t\<lparr>is_queued := False\<rparr>),
           StoreSaveOrUpdate (t\<lparr>is_queued := False\<rparr>),
           LogInfo (DownloadSuccessful (Some info)),
           CopyOrMoveFile (name t @ ''.torrent'')
             (build_parent_save_path cfg (anime_title info))
             (torrent_monitor_directory cfg) (torrent_keep_file_after_queuing cfg),
           LogError (MoveError e)]"
    by (simp add: w'_def)
  have st: "store_search (app_store w') (name t) = [t\<lparr>is_queued := False\<rparr>]"
    using fresh by (simp add: w'_def store_search_save_or_update)
  have loop: "process_search_results env cfg (t # rest) w =
          (case process_search_results env cfg rest w' of
             (Inl e', w2) \<Rightarrow> (Inl e', w2)
           | (Inr rest', w2) \<Rightarrow> (Inr (t\<lparr>is_queued := False\<rparr> # rest'), w2))"
    using pt by simp
  have later: "\<forall>env2 cfg2 c. name c = name t \<and> anime_info c \<noteq> None \<longrightarrow>
           process_torrent env2 cfg2 c w' =
             (Inr c, w'\<lparr>events := events w' @
                [StoreSearch (name c), LogInfo (SkippingExisting (anime_info c))]\<rparr>)"
    using st by (simp add: process_torrent_skip)
  from pt ev st loop later show ?thesis by blast
qed

theorem move_failure_keeps_record_witness:
  "anime_info torrent_missing = Some \<lparr>anime_title = ''Show B''\<rparr>
   \<and> store_search (app_store world0) (name torrent_missing) = []
   \<and> add_torrent_magnet move_raises (download_url torrent_missing) = Inr False
   \<and> download_torrent_file move_raises (torrent_missing\<lparr>is_queued := False\<rparr>) config0
        = Inr True
   \<and> copy_or_move_file move_raises (name torrent_missing @ ''.torrent'')
        (build_parent_save_path config0 ''Show B'') (torrent_monitor_directory config0)
        (torrent_keep_file_after_queuing config0) = Inl (Exception ''IOError'')
   \<and> is_Exception (Exception ''IOError'')
   \<and> process_torrent move_raises config0 torrent_missing world0 =
       (Inr torrent_missing,
        \<lparr>app_store = [torrent_missing],
         events =
           [StoreSearch ''Show.B.E05'',
            AddTorrentMagnet ''magnet:?xt=urn:btih:b05'',
            LogInfo (DownloadingTorrent ''Show.B.E05''),
            DownloadTorrentFile torrent_missing,
            StoreSaveOrUpdate torrent_missing,
            LogInfo (DownloadSuccessful (Some \<lparr>anime_title = ''Show B''\<rparr>)),
            CopyOrMoveFile ''Show.B.E05.torrent'' ''/anime/Show B'' ''/watch'' False,
            LogError (MoveError (Exception ''IOError''))]\<rparr>)"
  using move_failure_keeps_record [where t = torrent_missing
          and info = "\<lparr>anime_title = ''Show B''\<rparr>" and w = world0 and env = move_raises
          and cfg = config0 and e = "Exception ''IOError''" and rest = "[]"]
  by (auto simp add: decision_defs move_raises_def magnet_rejected_def collaborators0_def
        config0_def world0_def torrent_missing_def store_search_def
        store_save_or_update_def)

subsection \<open>The pipeline\<close>













lemma search_missing_loop_extends:
  "\<exists>evs. events (snd (search_missing_loop env cfg ms acc w)) = events w @ evs"
proof (induction ms arbitrary: acc w)
  case Nil
  then show ?case by simp
next
  case (Cons m ms)
  show ?case
  proof (cases "search_for_missing_shows env m cfg")
    case (Inl e)
    then show ?thesis by (simp add: emit_def)
  next
    case (Inr rs)
    show ?thesis
    proof (cases "rs = []")
      case True
      from Cons.IH [of acc "log_info (UnableToFind (title_userPreferred m))
                              (emit (SearchForMissingShows m) w)"]
      show ?thesis using Inr True by (auto simp add: emit_def log_info_def)
    next
      case False
      from Cons.IH [of "acc @ rs" "emit (SearchForMissingShows m) w"]
      show ?thesis using Inr False by (auto simp add: emit_def)
    qed
  qed
qed

lemma search_found_loop_extends:
  "\<exists>evs. events (snd (search_found_loop env cfg ps acc w)) = events w @ evs"
proof (induction ps arbitrary: acc w)
  case Nil
  then show ?case by simp
next
  case (Cons p ps)
  obtain s m where p: "p = (s, m)" by (cases p)
  show ?case
  proof (cases "search_for_shows env s m cfg")
    case (Inl e)
    with p show ?thesis by (simp add: emit_def)
  next
    case (Inr rs)
    show ?thesis
    proof (cases "rs = []")
      case True
      from Cons.IH [of acc "log_info (NoNewReleases m) (emit (SearchForShows s m) w)"]
      show ?thesis using p Inr True by (auto simp add: emit_def log_info_def)
    next
      case False
      from Cons.IH [of "acc @ rs" "emit (SearchForShows s m) w"]
      show ?thesis using p Inr False by (auto simp add: emit_def)
    qed
  qed
qed

lemma search_nyaa_for_shows_first_event:
  "\<exists>evs. events (snd (search_nyaa_for_shows env cfg q w)) =
      events w @ LogInfo SearchingMissing # evs"
proof -
  obtain r1 w1 where m: "search_missing_loop env cfg (shows_missing_in_plex q) []
                           (log_info SearchingMissing w) = (r1, w1)"
    by (cases "search_missing_loop env cfg (shows_missing_in_plex q) []
                 (log_info SearchingMissing w)")
  from search_missing_loop_extends
         [of env cfg "shows_missing_in_plex q" "[]" "log_info SearchingMissing w"] m
  obtain evs1 where evs1: "events w1 = events w @ LogInfo SearchingMissing # evs1"
    by (auto simp add: log_info_def emit_def)
  show ?thesis
  proof (cases r1)
    case (Inl e)
    with m evs1 show ?thesis by (simp add: search_nyaa_for_shows_def)
  next
    case (Inr rs)
    obtain r2 w2 where f: "search_found_loop env cfg
         (zip (shows_found_in_plex q) (show_media_entry_in_plex q)) []
         (log_info SearchingMatching w1) = (r2, w2)"
      by (cases "search_found_loop env cfg
         (zip (shows_found_in_plex q) (show_media_entry_in_plex q)) []
         (log_info SearchingMatching w1)")
    from search_found_loop_extends
           [of env cfg "zip (shows_found_in_plex q) (show_media_entry_in_plex q)" "[]"
               "log_info SearchingMatching w1"] f
    obtain evs2 where "events w2 = events w1 @ LogInfo SearchingMatching # evs2"
      by (auto simp add: log_info_def emit_def)
    with evs1 have "events w2 =
        events w @ LogInfo SearchingMissing # (evs1 @ LogInfo SearchingMatching # evs2)"
      by simp
    with m f Inr show ?thesis
      by (cases r2) (simp_all add: search_nyaa_for_shows_def)
  qed
qed

lemma process_search_results_extends:
  "\<exists>evs. events (snd (process_search_results env cfg cs w)) = events w @ evs"
proof (induction cs arbitrary: w)
  case Nil
  then show ?case by simp
next
  case (Cons c cs)
  obtain r w1 where pt: "process_torrent env cfg c w = (r, w1)"
    by (cases "process_torrent env cfg c w")
  from process_torrent_own_events [of env cfg c w] pt obtain evs1 where
    evs1: "events w1 = events w @ evs1" by auto
  show ?case
  proof (cases r)
    case (Inl e)
    with pt evs1 show ?thesis
      by (simp add: snd_process_search_results_Cons del: process_search_results.simps)
  next
    case (Inr c')
    from Cons.IH [of w1] obtain evs2 where
      "events (snd (process_search_results env cfg cs w1)) = events w1 @ evs2" by blast
    with pt Inr evs1 show ?thesis
      by (simp add: snd_process_search_results_Cons del: process_search_results.simps)
  qed
qed

text \<open>
  Claim C9.  The value of \<^verbatim>\<open>contains_items\<close> is truthy exactly when at least one of the
  three sequences of the queue is non-empty.  In \<^verbatim>\<open>start_application\<close> it is the gate
  between \<^verbatim>\<open>find_plex_show\<close> and the search: once a queue is returned for a non-empty
  list, the run stops there when the three sequences are empty, and otherwise goes on with
  \<^verbatim>\<open>search_nyaa_for_shows\<close>, whose first action is the log entry of line 101.
\<close>

theorem contains_items_gate:
  "(truthy (contains_items q) \<longleftrightarrow>
     (shows_found_in_plex q \<noteq> [] \<or> shows_missing_in_plex q \<noteq> []
        \<or> show_media_entry_in_plex q \<noteq> []))
   \<and> (fetch_anime_list env self w = (Inr anime_list, w1) \<and> anime_list \<noteq> []
        \<and> find_plex_show env anime_list w1 = (Inr q, w2) \<longrightarrow>
       (if shows_found_in_plex q = [] \<and> shows_missing_in_plex q = []
             \<and> show_media_entry_in_plex q = []
        then start_application_body env self w = (Inr (), w2)
        else (\<exists>evs. events (snd (start_application_body env self w)) =
                events w2 @ LogInfo SearchingMissing # evs)))"
proof (intro conjI impI)
  show "truthy (contains_items q) \<longleftrightarrow>
     (shows_found_in_plex q \<noteq> [] \<or> shows_missing_in_plex q \<noteq> []
        \<or> show_media_entry_in_plex q \<noteq> [])"
    by (auto simp add: contains_items_def truthy_py_or)
next
  assume a: "fetch_anime_list env self w = (Inr anime_list, w1) \<and> anime_list \<noteq> []
        \<and> find_plex_show env anime_list w1 = (Inr q, w2)"
  show "if shows_found_in_plex q = [] \<and> shows_missing_in_plex q = []
             \<and> show_media_entry_in_plex q = []
        then start_application_body env self w = (Inr (), w2)
        else (\<exists>evs. events (snd (start_application_body env self w)) =
                events w2 @ LogInfo SearchingMissing # evs)"
  proof (cases "shows_found_in_plex q = [] \<and> shows_missing_in_plex q = []
             \<and> show_media_entry_in_plex q = []")
    case True
    with a show ?thesis
      by (simp add: start_application_body_def contains_items_def truthy_py_or)
  next
    case False
    then have t: "truthy (contains_items q)"
      by (auto simp add: contains_items_def truthy_py_or)
    obtain r3 w3 where s: "search_nyaa_for_shows env (app_config self) q w2 = (r3, w3)"
      by (cases "search_nyaa_for_shows env (app_config self) q w2")
    from search_nyaa_for_shows_first_event [of env "app_config self" q w2] s
    obtain evs3 where evs3: "events w3 = events w2 @ LogInfo SearchingMissing # evs3"
      by auto
    have "\<exists>evs. events (snd (start_application_body env self w)) =
                events w2 @ LogInfo SearchingMissing # evs"
    proof (cases r3)
      case (Inl e)
      with a t s evs3 show ?thesis by (simp add: start_application_body_def)
    next
      case (Inr results)
      show ?thesis
      proof (cases "results = []")
        case True
        with a t s Inr evs3 show ?thesis
          by (simp add: start_application_body_def log_info_def emit_def)
      next
        case False
        from process_search_results_extends [of env "app_config self" results w3]
        obtain evs4 where
          evs4: "events (snd (process_search_results env (app_config self) results w3))
                   = events w3 @ evs4" by blast
        obtain r4 w4 where p: "process_search_results env (app_config self) results w3
                                 = (r4, w4)"
          by (cases "process_search_results env (app_config self) results w3")
        with evs4 evs3 have "events w4 = events w2 @ LogInfo SearchingMissing # (evs3 @ evs4)"
          by simp
        with a t s Inr False p show ?thesis
          by (cases r4) (simp_all add: start_application_body_def)
      qed
    qed
    with False show ?thesis by auto
  qed
qed

theorem contains_items_gate_witness:
  "truthy (contains_items
      \<lparr>shows_found_in_plex = [], shows_missing_in_plex = [entry_current],
       show_media_entry_in_plex = []\<rparr>)
   \<and> \<not> truthy (contains_items empty_queue)
   \<and> fetch_anime_list client_raises controller0 world0 =
        (Inr [entry_current],
         \<lparr>app_store = [], events = [MakeRequest, AniListSearch (Some ''CURRENT'')]\<rparr>)
   \<and> find_plex_show client_raises [entry_current]
        \<lparr>app_store = [], events = [MakeRequest, AniListSearch (Some ''CURRENT'')]\<rparr> =
        (Inr \<lparr>shows_found_in_plex = [], shows_missing_in_plex = [entry_current],
              show_media_entry_in_plex = []\<rparr>,
         \<lparr>app_store = [],
          events = [MakeRequest, AniListSearch (Some ''CURRENT''),
                    FindAllByTitle entry_current, LogInfo (FetchedShows 0 1)]\<rparr>)
   \<and> events (snd (start_application_body client_raises controller0 world0)) =
        [MakeRequest, AniListSearch (Some ''CURRENT''), FindAllByTitle entry_current,
         LogInfo (FetchedShows 0 1), LogInfo SearchingMissing,
         SearchForMissingShows entry_current, LogInfo SearchingMatching,
         StoreSearch ''Show.B.E05'', AddTorrentMagnet ''magnet:?xt=urn:btih:b05'']"
  using contains_items_gate [where q = "\<lparr>shows_found_in_plex = [],
            shows_missing_in_plex = [entry_current], show_media_entry_in_plex = []\<rparr>"
          and env = client_raises and self = controller0 and w = world0
          and anime_list = "[entry_current]"
          and ?w1.0 = "\<lparr>app_store = [], events = [MakeRequest, AniListSearch (Some ''CURRENT'')]\<rparr>"
          and ?w2.0 = "\<lparr>app_store = [],
              events = [MakeRequest, AniListSearch (Some ''CURRENT''),
                        FindAllByTitle entry_current, LogInfo (FetchedShows 0 1)]\<rparr>"]
        contains_items_gate [where q = empty_queue and env = collaborators0
          and self = controller0 and w = world0 and anime_list = "[]"
          and ?w1.0 = world0 and ?w2.0 = world0]
  by (simp add: start_application_body_def fetch_anime_list_def
        find_plex_show_def empty_queue_def contains_items_def py_or_def
        search_nyaa_for_shows_def decision_defs client_raises_def controller0_def
        collaborators0_def config0_def world0_def entry_current_def torrent_missing_def
        torrent_found_def store_search_def store_save_or_update_def)

end
